theory Spec2Isabelle
  imports Main
begin

section \<open>Python string operations used by the sources\<close>

text \<open>
  Strings are \<open>char list\<close>. The functions below are the \<open>str\<close> methods the three
  modelled modules call: \<open>s.startswith(p)\<close>, \<open>s.endswith(p)\<close>, \<open>needle in s\<close>,
  \<open>sep.join(xs)\<close>, \<open>s.strip()\<close>, \<open>s.split()\<close>, \<open>s.split(d)\<close> and \<open>s.lower()\<close>
  (on ASCII).
\<close>

fun startswith :: "string \<Rightarrow> string \<Rightarrow> bool" where
  "startswith s [] = True"
| "startswith [] (p # ps) = False"
| "startswith (c # cs) (p # ps) = (c = p \<and> startswith cs ps)"

definition endswith :: "string \<Rightarrow> string \<Rightarrow> bool" where
  "endswith s p = startswith (rev s) (rev p)"

text \<open>\<open>py_in needle s\<close> is Python's \<open>needle in s\<close> on strings.\<close>

fun py_in :: "string \<Rightarrow> string \<Rightarrow> bool" where
  "py_in needle [] = (needle = [])"
| "py_in needle (c # cs) = (startswith (c # cs) needle \<or> py_in needle cs)"

fun join :: "string \<Rightarrow> string list \<Rightarrow> string" where
  "join sep [] = []"
| "join sep [x] = x"
| "join sep (x # y # ys) = x @ sep @ join sep (y # ys)"

definition is_space :: "char \<Rightarrow> bool" where
  "is_space c = (c \<in> {CHR '' '', CHR 0x09, CHR 0x0A, CHR 0x0B, CHR 0x0C, CHR 0x0D,
                       CHR 0x1C, CHR 0x1D, CHR 0x1E, CHR 0x1F})"

definition strip :: "string \<Rightarrow> string" where
  "strip s = rev (dropWhile is_space (rev (dropWhile is_space s)))"

fun split_ws_from :: "string \<Rightarrow> string \<Rightarrow> string list" where
  "split_ws_from cur [] = (if cur = [] then [] else [cur])"
| "split_ws_from cur (c # cs) =
     (if is_space c
      then (if cur = [] then split_ws_from [] cs else cur # split_ws_from [] cs)
      else split_ws_from (cur @ [c]) cs)"

definition split_ws :: "string \<Rightarrow> string list" where
  "split_ws s = split_ws_from [] s"

fun split_on :: "char \<Rightarrow> string \<Rightarrow> string list" where
  "split_on d [] = [ [] ]"
| "split_on d (c # cs) =
     (if c = d then [] # split_on d cs
      else (case split_on d cs of [] \<Rightarrow> [ [c] ] | w # ws \<Rightarrow> (c # w) # ws))"

definition lower_char :: "char \<Rightarrow> char" where
  "lower_char c =
     (let n = (of_char c :: nat) in if 65 \<le> n \<and> n \<le> 90 then char_of (n + 32) else c)"

definition lower :: "string \<Rightarrow> string" where
  "lower s = map lower_char s"

section \<open>Time\<close>

text \<open>
  A \<open>datetime\<close> is its count of microseconds since the epoch (the resolution of
  Python's \<open>datetime\<close>), an unbounded integer; \<open>timedelta(days=n)\<close> is \<open>days n\<close>.
\<close>

type_synonym timestamp = int

definition days :: "int \<Rightarrow> int" where
  "days n = n * 86400000000"

definition hours :: "int \<Rightarrow> int" where
  "hours n = n * 3600000000"

section \<open>The stored tables\<close>

text \<open>
  A row of \<open>posts_raw\<close> with the columns that ingestion and cleanup read or write. The
  enrichment columns are never touched by the modelled functions (rows are inserted
  without them and deleted whole), so they are not part of the row here. \<open>p_status\<close>
  is the nullable workflow status.
\<close>

record post =
  p_id :: string
  p_subreddit :: string
  p_created_utc :: timestamp
  p_title :: string
  p_body :: string
  p_img_text :: "string option"
  p_link_flair_text :: "string option"
  p_score :: int
  p_num_comments :: int
  p_url :: string
  p_author_id :: "string option"
  p_status :: "string option"

record user =
  u_id :: string
  u_username :: string
  u_created_utc :: "timestamp option"
  u_comment_karma :: "int option"
  u_link_karma :: "int option"
  u_is_verified :: "bool option"

text \<open>The singleton row of \<open>pipeline_status\<close> (\<open>id = 1\<close>); every column is nullable.\<close>

record pipeline_row =
  last_run_timestamp :: "timestamp option"
  is_running :: "bool option"
  last_completion_timestamp :: "timestamp option"
  process_pid :: "int option"

text \<open>
  The database. Tables are lists of rows in storage order; \<open>fetchone\<close> on a
  \<open>SELECT\<close> returns the first matching row of that order. The DDL of \<open>posts_raw\<close>
  and \<open>users\<close> is not among the sources, so what the modelled statements depend on
  in it is a parameter of the database: \<open>status_default\<close> is the column default of
  \<open>posts_raw.status\<close>, \<open>username_unique\<close> says whether \<open>users\<close> carries the
  constraint \<open>users_username_key\<close> that the ingestor's error handler names, and
  \<open>url_unique\<close> whether the index \<open>idx_posts_url_unique\<close> of
  database/create\_indexes.py has been created.
\<close>

record database =
  pipeline_status :: "pipeline_row option"
  posts_raw :: "post list"
  users :: "user list"
  status_default :: "string option"
  username_unique :: bool
  url_unique :: bool

section \<open>What the operating system shows about a process\<close>

text \<open>
  Every call the liveness checks make into \<open>psutil\<close>, \<open>os.kill\<close> and \<open>ps\<close> is an
  observation of the environment. \<open>proc_view\<close> holds, for one pid, the outcome of each
  such call; the checks are functions of these outcomes.
\<close>

datatype 'a psutil_result = Returns 'a | NoSuchProcess | AccessDenied

datatype ps_run = Completed int string | TimeoutExpired | SubprocessError | PsOSError

record proc_view =
  pid_exists :: bool
  process_open :: "unit psutil_result"
  process_status :: "string psutil_result"
  process_cmdline :: "string list psutil_result"
  kill0_ok :: bool
  ps_stat :: ps_run
  ps_stat_comm :: ps_run

text \<open>
  One entry of \<open>psutil.process_iter(['pid', 'cmdline', 'create_time'])\<close>: reading
  \<open>proc.info\<close> either gives the three attributes (\<open>cmdline\<close> may be \<open>None\<close>) or
  raises \<open>NoSuchProcess\<close>/\<open>AccessDenied\<close>.
\<close>

record proc_info =
  pi_pid :: int
  pi_cmdline :: "string list option"
  pi_create_time :: "int option"

record os_env =
  psutil_available :: bool
  procs :: "int \<Rightarrow> proc_view"
  process_iter :: "proc_info psutil_result list"
  ps_aux :: ps_run

definition STATUS_ZOMBIE :: string where
  "STATUS_ZOMBIE = ''zombie''"

definition pipeline_keywords :: "string list" where
  "pipeline_keywords = [''run_daily_reddit_pipeline'', ''ingest.py'', ''run_gemini_analysis.py'']"

subsection \<open>\<open>is_process_running\<close> (app/streamlit\_app.py)\<close>

text \<open>\<open>if not pid\<close> holds for \<open>None\<close> and for \<open>0\<close>.\<close>

definition is_process_running :: "int option \<Rightarrow> os_env \<Rightarrow> bool" where
  "is_process_running pid os =
     (case pid of
        None \<Rightarrow> False
      | Some p \<Rightarrow>
          if p = 0 then False
          else
            let v = procs os p in
            if psutil_available os then
              (if pid_exists v then
                 (case process_open v of
                    Returns u \<Rightarrow>
                      (case process_status v of
                         Returns st \<Rightarrow>
                           if st = STATUS_ZOMBIE then False
                           else
                             (case process_cmdline v of
                                Returns args \<Rightarrow>
                                  let cmdline = join '' '' args in
                                  if py_in ''run_daily_reddit_pipeline'' cmdline
                                     \<or> py_in ''ingest.py'' cmdline
                                     \<or> py_in ''run_gemini_analysis.py'' cmdline
                                  then True
                                  else False
                              | NoSuchProcess \<Rightarrow> False
                              | AccessDenied \<Rightarrow> False)
                       | NoSuchProcess \<Rightarrow> False
                       | AccessDenied \<Rightarrow> False)
                  | NoSuchProcess \<Rightarrow> False
                  | AccessDenied \<Rightarrow> False)
               else False)
            else
              (if kill0_ok v then
                 (case ps_stat v of
                    Completed rc out \<Rightarrow>
                      if rc = 0 then
                        (let stat = strip out in
                         if py_in ''Z'' stat \<or> py_in ''<defunct>'' stat then False else True)
                      else False
                  | TimeoutExpired \<Rightarrow> True
                  | SubprocessError \<Rightarrow> True
                  | PsOSError \<Rightarrow> False)
               else False))"

subsection \<open>\<open>is_pipeline_process_running\<close> (utils/pipeline\_health\_check.py)\<close>

text \<open>
  The second component of the returned pair is the reason text; here it is a value
  that keeps the data the f-string interpolates.
\<close>

datatype reason =
    No_PID_provided
  | Does_not_exist int
  | Is_zombie int
  | Is_running_pipeline int
  | Not_a_pipeline_process int string
  | PID_error int
  | Is_running_comm int string
  | Status_unknown int
  | Timeout_checking int

datatype exn = Subprocess_error | Config_error

definition is_pipeline_process_running :: "int option \<Rightarrow> os_env \<Rightarrow> exn + (bool \<times> reason)" where
  "is_pipeline_process_running pid os =
     (case pid of
        None \<Rightarrow> Inr (False, No_PID_provided)
      | Some p \<Rightarrow>
          if p = 0 then Inr (False, No_PID_provided)
          else
            let v = procs os p in
            if psutil_available os then
              (if pid_exists v then
                 (case process_open v of
                    Returns u \<Rightarrow>
                      (case process_status v of
                         Returns st \<Rightarrow>
                           if st = STATUS_ZOMBIE then Inr (False, Is_zombie p)
                           else
                             (case process_cmdline v of
                                Returns args \<Rightarrow>
                                  let cmdline = join '' '' args in
                                  if list_ex (\<lambda>keyword. py_in keyword cmdline) pipeline_keywords
                                  then Inr (True, Is_running_pipeline p)
                                  else Inr (False, Not_a_pipeline_process p cmdline)
                              | NoSuchProcess \<Rightarrow> Inr (False, PID_error p)
                              | AccessDenied \<Rightarrow> Inr (False, PID_error p))
                       | NoSuchProcess \<Rightarrow> Inr (False, PID_error p)
                       | AccessDenied \<Rightarrow> Inr (False, PID_error p))
                  | NoSuchProcess \<Rightarrow> Inr (False, PID_error p)
                  | AccessDenied \<Rightarrow> Inr (False, PID_error p))
               else Inr (False, Does_not_exist p))
            else
              (if kill0_ok v then
                 (case ps_stat_comm v of
                    Completed rc out \<Rightarrow>
                      if rc = 0 then
                        (case split_on (CHR 0x0A) (strip out) of
                           [] \<Rightarrow> Inr (False, Status_unknown p)
                         | line # rest \<Rightarrow>
                             (case split_ws line of
                                stat # c # cs \<Rightarrow>
                                  let comm = join '' '' (c # cs) in
                                  if py_in ''Z'' stat \<or> py_in ''<defunct>'' comm
                                  then Inr (False, Is_zombie p)
                                  else Inr (True, Is_running_comm p comm)
                              | _ \<Rightarrow> Inr (False, Status_unknown p)))
                      else Inr (False, Status_unknown p)
                  | TimeoutExpired \<Rightarrow> Inr (True, Timeout_checking p)
                  | SubprocessError \<Rightarrow> Inl Subprocess_error
                  | PsOSError \<Rightarrow> Inr (False, Does_not_exist p))
               else Inr (False, Does_not_exist p)))"

section \<open>The pipeline run state (app/streamlit\_app.py)\<close>

text \<open>
  Every function that opens a database connection takes a flag saying whether its
  \<open>try\<close> block runs without a storage exception; with the flag false the function
  takes its \<open>except\<close> branch. Each function returns its value, the database afterwards
  and the lines it printed.
\<close>

datatype app_log =
    Error_getting_status
  | Error_updating_status
  | Error_checking_completion
  | Auto_fixing_stale_state "int option"
  | St_warning_auto_fixed "int option"

text \<open>The dictionary \<open>get_pipeline_status\<close> returns.\<close>

record status_dict =
  sd_last_run :: timestamp
  sd_is_running :: bool
  sd_last_completion :: timestamp
  sd_process_pid :: "int option"

definition default_status :: status_dict where
  "default_status =
     \<lparr>sd_last_run = 0, sd_is_running = False, sd_last_completion = 0, sd_process_pid = None\<rparr>"

text \<open>
  \<open>update_pipeline_status\<close>: three upserts on the singleton row. An \<open>INSERT\<close> gives
  the columns it does not name their defaults (\<open>is_running\<close> defaults to \<open>FALSE\<close>,
  the others to \<open>NULL\<close>); any other action executes nothing and still returns \<open>True\<close>.
\<close>

definition update_pipeline_status ::
  "bool \<Rightarrow> database \<Rightarrow> timestamp \<Rightarrow> string \<Rightarrow> bool \<times> database \<times> app_log list" where
  "update_pipeline_status conn_ok db ts action =
     (if conn_ok then
        (if action = ''start'' then
           (True,
            db\<lparr>pipeline_status := Some
              (case pipeline_status db of
                 None \<Rightarrow> \<lparr>last_run_timestamp = Some ts, is_running = Some True,
                           last_completion_timestamp = None, process_pid = None\<rparr>
               | Some r \<Rightarrow> r\<lparr>last_run_timestamp := Some ts, is_running := Some True\<rparr>)\<rparr>,
            [])
         else if action = ''complete'' then
           (True,
            db\<lparr>pipeline_status := Some
              (case pipeline_status db of
                 None \<Rightarrow> \<lparr>last_run_timestamp = None, is_running = Some False,
                           last_completion_timestamp = Some ts, process_pid = None\<rparr>
               | Some r \<Rightarrow> r\<lparr>last_completion_timestamp := Some ts, is_running := Some False\<rparr>)\<rparr>,
            [])
         else if action = ''failed'' then
           (True,
            db\<lparr>pipeline_status := Some
              (case pipeline_status db of
                 None \<Rightarrow> \<lparr>last_run_timestamp = None, is_running = Some False,
                           last_completion_timestamp = None, process_pid = None\<rparr>
               | Some r \<Rightarrow> r\<lparr>is_running := Some False, process_pid := None\<rparr>)\<rparr>,
            [])
         else (True, db, []))
      else (False, db, [Error_updating_status]))"

text \<open>\<open>store_pipeline_pid\<close>: upsert of the pid alone.\<close>

definition store_pipeline_pid :: "bool \<Rightarrow> database \<Rightarrow> int \<Rightarrow> database" where
  "store_pipeline_pid conn_ok db pid =
     (if conn_ok then
        db\<lparr>pipeline_status := Some
          (case pipeline_status db of
             None \<Rightarrow> \<lparr>last_run_timestamp = None, is_running = Some False,
                       last_completion_timestamp = None, process_pid = Some pid\<rparr>
           | Some r \<Rightarrow> r\<lparr>process_pid := Some pid\<rparr>)\<rparr>
      else db)"

text \<open>Python truthiness of the two columns tested by \<open>if is_running and process_pid\<close>.\<close>

definition truthy_bool :: "bool option \<Rightarrow> bool" where
  "truthy_bool b = (b = Some True)"

definition truthy_pid :: "int option \<Rightarrow> bool" where
  "truthy_pid p = (case p of None \<Rightarrow> False | Some n \<Rightarrow> n \<noteq> 0)"

definition status_of_row :: "pipeline_row \<Rightarrow> bool \<Rightarrow> status_dict" where
  "status_of_row row running =
     \<lparr>sd_last_run = (case last_run_timestamp row of None \<Rightarrow> 0 | Some t \<Rightarrow> t),
      sd_is_running = running,
      sd_last_completion = (case last_completion_timestamp row of None \<Rightarrow> 0 | Some t \<Rightarrow> t),
      sd_process_pid = process_pid row\<rparr>"

text \<open>
  \<open>get_pipeline_status\<close>: \<open>read_ok\<close> is the outcome of the function's own connection
  and queries, \<open>fix_ok\<close> that of the connection \<open>update_pipeline_status\<close> opens for the
  auto-fix. The local \<open>is_running\<close> is reset after the auto-fix; the local
  \<open>process_pid\<close> is returned as it was read.
\<close>

definition get_pipeline_status ::
  "bool \<Rightarrow> bool \<Rightarrow> os_env \<Rightarrow> timestamp \<Rightarrow> database \<Rightarrow> status_dict \<times> database \<times> app_log list" where
  "get_pipeline_status read_ok fix_ok os now db =
     (if read_ok then
        (case pipeline_status db of
           None \<Rightarrow> (default_status, db, [])
         | Some row \<Rightarrow>
             if truthy_bool (is_running row) \<and> truthy_pid (process_pid row) then
               (if is_process_running (process_pid row) os
                then (status_of_row row True, db, [])
                else
                  (case update_pipeline_status fix_ok db now ''failed'' of
                     (ok, db', lg) \<Rightarrow>
                       (status_of_row row False, db',
                        Auto_fixing_stale_state (process_pid row) # lg
                          @ [St_warning_auto_fixed (process_pid row)])))
             else (status_of_row row (truthy_bool (is_running row)), db, []))
      else (default_status, db, [Error_getting_status]))"

text \<open>
  \<open>check_pipeline_completion\<close>: \<open>conn_ok\<close> is the outcome of its own connection,
  \<open>query_ok\<close> that of its count query, \<open>complete_ok\<close> that of the update marking
  completion.
\<close>

definition check_pipeline_completion ::
  "bool \<Rightarrow> bool \<Rightarrow> bool \<Rightarrow> bool \<Rightarrow> bool \<Rightarrow> os_env \<Rightarrow> timestamp \<Rightarrow> database
     \<Rightarrow> bool \<times> database \<times> app_log list" where
  "check_pipeline_completion conn_ok read_ok fix_ok query_ok complete_ok os now db =
     (if conn_ok then
        (case get_pipeline_status read_ok fix_ok os now db of
           (status, db1, lg1) \<Rightarrow>
             if sd_is_running status then
               (if query_ok then
                  (let new_posts_count =
                         length (filter (\<lambda>p. p_created_utc p > sd_last_run status) (posts_raw db1))
                   in if new_posts_count > 0 \<and> sd_is_running status then
                        (case update_pipeline_status complete_ok db1 now ''complete'' of
                           (ok, db2, lg2) \<Rightarrow> (True, db2, lg1 @ lg2))
                      else (False, db1, lg1))
                else (True, db1, lg1 @ [Error_checking_completion]))
             else (True, db1, lg1))
      else (True, db, [Error_checking_completion]))"

text \<open>
  The dashboard disables the launch button exactly when
  \<open>pipeline_status['is_running'] and not pipeline_complete\<close>.
\<close>

definition button_disabled :: "status_dict \<Rightarrow> bool \<Rightarrow> bool" where
  "button_disabled st pipeline_complete = (sd_is_running st \<and> (pipeline_complete = False))"

section \<open>The health check (utils/pipeline\_health\_check.py)\<close>

text \<open>\<open>int(s)\<close> on a token: an optional sign, then digits, single underscores between digits.\<close>

definition is_digit :: "char \<Rightarrow> bool" where
  "is_digit c = (let n = (of_char c :: nat) in 48 \<le> n \<and> n \<le> 57)"

definition digit_val :: "char \<Rightarrow> int" where
  "digit_val c = int (of_char c) - 48"

fun parse_digits :: "bool \<Rightarrow> int \<Rightarrow> string \<Rightarrow> int option" where
  "parse_digits prev acc [] = (if prev then Some acc else None)"
| "parse_digits prev acc (c # cs) =
     (if is_digit c then parse_digits True (acc * 10 + digit_val c) cs
      else if c = CHR ''_'' \<and> prev then parse_digits False acc cs
      else None)"

definition py_int :: "string \<Rightarrow> int option" where
  "py_int s =
     (case s of
        [] \<Rightarrow> None
      | c # cs \<Rightarrow>
          if c = CHR ''+'' then parse_digits False 0 cs
          else if c = CHR ''-'' then map_option uminus (parse_digits False 0 cs)
          else parse_digits False 0 s)"

record orphan =
  o_pid :: int
  o_cmdline :: string
  o_create_time :: "int option"

definition has_keyword :: "string \<Rightarrow> bool" where
  "has_keyword s = list_ex (\<lambda>keyword. py_in keyword s) pipeline_keywords"

fun orphans_psutil :: "proc_info psutil_result list \<Rightarrow> orphan list" where
  "orphans_psutil [] = []"
| "orphans_psutil (Returns info # rest) =
     (let cmdline = join '' '' (case pi_cmdline info of None \<Rightarrow> [] | Some args \<Rightarrow> args)
      in if has_keyword cmdline
         then \<lparr>o_pid = pi_pid info, o_cmdline = cmdline, o_create_time = pi_create_time info\<rparr>
                # orphans_psutil rest
         else orphans_psutil rest)"
| "orphans_psutil (NoSuchProcess # rest) = orphans_psutil rest"
| "orphans_psutil (AccessDenied # rest) = orphans_psutil rest"

fun orphans_ps_lines :: "string list \<Rightarrow> orphan list" where
  "orphans_ps_lines [] = []"
| "orphans_ps_lines (line # rest) =
     (if has_keyword line then
        (case split_ws line of
           user_col # pid_col # cols \<Rightarrow>
             (case py_int pid_col of
                Some pid \<Rightarrow>
                  \<lparr>o_pid = pid, o_cmdline = join '' '' (drop 10 (user_col # pid_col # cols)),
                   o_create_time = None\<rparr> # orphans_ps_lines rest
              | None \<Rightarrow> orphans_ps_lines rest)
         | _ \<Rightarrow> orphans_ps_lines rest)
      else orphans_ps_lines rest)"

text \<open>
  \<open>find_orphaned_pipeline_processes\<close>: only \<open>TimeoutExpired\<close> is caught around
  \<open>ps aux\<close>; another failure of the subprocess leaves the function as an exception.
\<close>

definition find_orphaned_pipeline_processes :: "os_env \<Rightarrow> exn + orphan list" where
  "find_orphaned_pipeline_processes os =
     (if psutil_available os then Inr (orphans_psutil (process_iter os))
      else
        (case ps_aux os of
           Completed rc out \<Rightarrow>
             if rc = 0 then Inr (orphans_ps_lines (split_on (CHR 0x0A) out)) else Inr []
         | TimeoutExpired \<Rightarrow> Inr []
         | SubprocessError \<Rightarrow> Inl Subprocess_error
         | PsOSError \<Rightarrow> Inl Subprocess_error))"

text \<open>The issue and fix texts, and the lines of the narrative, with the data they interpolate.\<close>

datatype issue =
    No_status_found
  | Marked_running_but reason
  | Running_too_long int
  | Orphaned_process int string
  | Health_check_failed exn

datatype applied_fix = Fixed_stale_status "int option"

datatype narr =
    N_starting
  | N_no_status_found
  | N_database_status pipeline_row
  | N_issue issue
  | N_auto_fixing
  | N_fix applied_fix
  | N_failed_to_fix
  | N_validation reason
  | N_warning issue
  | N_checking_orphans
  | N_no_orphans
  | N_summary nat nat
  | N_issues_list "issue list"
  | N_fixes_list "applied_fix list"
  | N_all_passed
  | N_error_reading_status
  | N_error_fixing_status

text \<open>\<open>say verbose ls\<close>: the lines \<open>ls\<close>, printed under \<open>if verbose:\<close>.\<close>

definition say :: "bool \<Rightarrow> narr list \<Rightarrow> narr list" where
  "say verbose ls = (if verbose then ls else [])"

definition get_pipeline_status_from_db :: "bool \<Rightarrow> database \<Rightarrow> pipeline_row option \<times> narr list" where
  "get_pipeline_status_from_db read_ok db =
     (if read_ok then (pipeline_status db, []) else (None, [N_error_reading_status]))"

text \<open>\<open>fix_stale_pipeline_status\<close>: a plain \<open>UPDATE ... WHERE id = 1\<close>, no insert.\<close>

definition fix_stale_pipeline_status :: "bool \<Rightarrow> database \<Rightarrow> bool \<times> database \<times> narr list" where
  "fix_stale_pipeline_status write_ok db =
     (if write_ok then
        (True,
         db\<lparr>pipeline_status :=
              map_option (\<lambda>r. r\<lparr>is_running := Some False, process_pid := None\<rparr>) (pipeline_status db)\<rparr>,
         [])
      else (False, db, [N_error_fixing_status]))"

record health =
  healthy :: bool
  issues_found :: "issue list"
  fixes_applied :: "applied_fix list"

text \<open>The state the body of \<open>perform_health_check\<close> threads through its steps.\<close>

record hc_state =
  hc_issues :: "issue list"
  hc_fixes :: "applied_fix list"
  hc_db :: database
  hc_out :: "narr list"

text \<open>
  The step under \<open>if db_status['is_running'] and db_status['process_pid']\<close>. It raises
  when the liveness check does; the state is then the one before the step.
\<close>

definition check_stale :: "bool \<Rightarrow> bool \<Rightarrow> os_env \<Rightarrow> pipeline_row \<Rightarrow> hc_state \<Rightarrow> exn + hc_state" where
  "check_stale verbose fix_ok os row s =
     (if truthy_bool (is_running row) \<and> truthy_pid (process_pid row) then
        (case is_pipeline_process_running (process_pid row) os of
           Inl e \<Rightarrow> Inl e
         | Inr (running, reason) \<Rightarrow>
             if running then Inr (s\<lparr>hc_out := hc_out s @ say verbose [N_validation reason]\<rparr>)
             else
               (let issue = Marked_running_but reason in
                case fix_stale_pipeline_status fix_ok (hc_db s) of
                  (fixed, db', err) \<Rightarrow>
                    if fixed then
                      Inr \<lparr>hc_issues = hc_issues s @ [issue],
                           hc_fixes = hc_fixes s @ [Fixed_stale_status (process_pid row)],
                           hc_db = db',
                           hc_out = hc_out s @ say verbose [N_issue issue, N_auto_fixing] @ err
                                      @ say verbose [N_fix (Fixed_stale_status (process_pid row))]\<rparr>
                    else
                      Inr \<lparr>hc_issues = hc_issues s @ [issue],
                           hc_fixes = hc_fixes s,
                           hc_db = db',
                           hc_out = hc_out s @ say verbose [N_issue issue, N_auto_fixing] @ err
                                      @ say verbose [N_failed_to_fix]\<rparr>))
      else Inr s)"

text \<open>
  The step under \<open>if db_status['is_running'] and db_status['last_run']\<close>:
  \<open>runtime.total_seconds() / 3600 > 2\<close> is \<open>now - last_run > hours 2\<close>.
\<close>

definition check_long_running :: "bool \<Rightarrow> timestamp \<Rightarrow> pipeline_row \<Rightarrow> hc_state \<Rightarrow> hc_state" where
  "check_long_running verbose now row s =
     (case last_run_timestamp row of
        None \<Rightarrow> s
      | Some last_run \<Rightarrow>
          if truthy_bool (is_running row) \<and> now - last_run > hours 2 then
            s\<lparr>hc_issues := hc_issues s @ [Running_too_long (now - last_run)],
              hc_out := hc_out s @ say verbose [N_warning (Running_too_long (now - last_run))]\<rparr>
          else s)"

definition is_tracked :: "pipeline_row option \<Rightarrow> orphan \<Rightarrow> bool" where
  "is_tracked db_status proc =
     (case db_status of None \<Rightarrow> False | Some row \<Rightarrow> process_pid row = Some (o_pid proc))"

fun report_orphans :: "bool \<Rightarrow> pipeline_row option \<Rightarrow> orphan list \<Rightarrow> hc_state \<Rightarrow> hc_state" where
  "report_orphans verbose db_status [] s = s"
| "report_orphans verbose db_status (proc # rest) s =
     (if is_tracked db_status proc then report_orphans verbose db_status rest s
      else
        report_orphans verbose db_status rest
          (s\<lparr>hc_issues := hc_issues s @ [Orphaned_process (o_pid proc) (o_cmdline proc)],
             hc_out := hc_out s
               @ say verbose [N_warning (Orphaned_process (o_pid proc) (o_cmdline proc))]\<rparr>))"

definition check_orphans :: "bool \<Rightarrow> os_env \<Rightarrow> pipeline_row option \<Rightarrow> hc_state \<Rightarrow> exn + hc_state" where
  "check_orphans verbose os db_status s =
     (let s1 = s\<lparr>hc_out := hc_out s @ say verbose [N_checking_orphans]\<rparr> in
      case find_orphaned_pipeline_processes os of
        Inl e \<Rightarrow> Inl e
      | Inr orphaned \<Rightarrow>
          if orphaned = [] then Inr (s1\<lparr>hc_out := hc_out s1 @ say verbose [N_no_orphans]\<rparr>)
          else Inr (report_orphans verbose db_status orphaned s1))"

definition summary :: "bool \<Rightarrow> hc_state \<Rightarrow> narr list" where
  "summary verbose s =
     say verbose
       ([N_summary (length (hc_issues s)) (length (hc_fixes s))]
        @ (if hc_issues s = [] then [] else [N_issues_list (hc_issues s)])
        @ (if hc_fixes s = [] then [] else [N_fixes_list (hc_fixes s)])
        @ (if hc_issues s = [] then [N_all_passed] else []))"

text \<open>The \<open>except Exception\<close> branch: the result it returns, and its one line.\<close>

definition failed_check :: "bool \<Rightarrow> exn \<Rightarrow> database \<Rightarrow> narr list \<Rightarrow> health \<times> database \<times> narr list" where
  "failed_check verbose e db out =
     (\<lparr>healthy = False, issues_found = [Health_check_failed e], fixes_applied = []\<rparr>, db,
      out @ say verbose [N_issue (Health_check_failed e)])"

text \<open>
  The branch on \<open>db_status\<close>: without a row the issue is recorded; with one, the
  stored values are printed and the two checks on it run. An exception of the liveness
  check leaves with what was printed before it.
\<close>

definition check_status ::
  "bool \<Rightarrow> bool \<Rightarrow> os_env \<Rightarrow> timestamp \<Rightarrow> pipeline_row option \<Rightarrow> hc_state
     \<Rightarrow> (exn \<times> hc_state) + hc_state" where
  "check_status verbose fix_ok os now db_status s0 =
     (case db_status of
        None \<Rightarrow>
          Inr (s0\<lparr>hc_issues := hc_issues s0 @ [No_status_found],
                  hc_out := hc_out s0 @ say verbose [N_no_status_found]\<rparr>)
      | Some row \<Rightarrow>
          (case check_stale verbose fix_ok os row
                  (s0\<lparr>hc_out := hc_out s0 @ say verbose [N_database_status row]\<rparr>) of
             Inl e \<Rightarrow> Inl (e, s0\<lparr>hc_out := hc_out s0 @ say verbose [N_database_status row]\<rparr>)
           | Inr s1 \<Rightarrow> Inr (check_long_running verbose now row s1)))"

text \<open>
  \<open>perform_health_check\<close>: \<open>config_ok\<close> is the outcome of \<open>load_config\<close>, \<open>read_ok\<close>
  that of the status read, \<open>fix_ok\<close> that of the repairing update. An exception raised
  in a step keeps what the earlier steps wrote and printed.
\<close>

definition perform_health_check ::
  "bool \<Rightarrow> bool \<Rightarrow> bool \<Rightarrow> bool \<Rightarrow> os_env \<Rightarrow> timestamp \<Rightarrow> database
     \<Rightarrow> health \<times> database \<times> narr list" where
  "perform_health_check verbose config_ok read_ok fix_ok os now db =
     (if config_ok then
        (case get_pipeline_status_from_db read_ok db of
           (db_status, err) \<Rightarrow>
             (case check_status verbose fix_ok os now db_status
                     \<lparr>hc_issues = [], hc_fixes = [], hc_db = db,
                      hc_out = say verbose [N_starting] @ err\<rparr> of
                Inl (e, s) \<Rightarrow> failed_check verbose e (hc_db s) (hc_out s)
              | Inr s2 \<Rightarrow>
                  (case check_orphans verbose os db_status s2 of
                     Inl e \<Rightarrow>
                       failed_check verbose e (hc_db s2)
                         (hc_out s2 @ say verbose [N_checking_orphans])
                   | Inr s3 \<Rightarrow>
                       (\<lparr>healthy = (length (hc_issues s3) = 0), issues_found = hc_issues s3,
                         fixes_applied = hc_fixes s3\<rparr>,
                        hc_db s3, hc_out s3 @ summary verbose s3))))
      else failed_check verbose Config_error db (say verbose [N_starting]))"

text \<open>\<open>main\<close>: the exit status passed to \<open>sys.exit\<close>, for parsed arguments \<open>--quiet\<close> and \<open>--fix\<close>.\<close>

definition main_exit ::
  "bool \<Rightarrow> bool \<Rightarrow> bool \<Rightarrow> bool \<Rightarrow> bool \<Rightarrow> os_env \<Rightarrow> timestamp \<Rightarrow> database
     \<Rightarrow> int \<times> database \<times> narr list" where
  "main_exit quiet fix_flag config_ok read_ok fix_ok os now db =
     (case perform_health_check (\<not> quiet) config_ok read_ok fix_ok os now db of
        (result, db', out) \<Rightarrow> ((if healthy result then 0 else 1), db', out))"

section \<open>Ingestion (ingestor/ingest.py)\<close>

subsection \<open>What the feed delivers\<close>

text \<open>
  The attributes of a PRAW author that the ingestor reads under \<open>hasattr\<close>: \<open>None\<close>
  is an absent attribute. \<open>has_verified_email\<close> may be present with the value \<open>None\<close>.
\<close>

record author_details =
  ad_created_utc :: "timestamp option"
  ad_comment_karma :: "int option"
  ad_link_karma :: "int option"
  ad_has_verified_email :: "bool option option"

text \<open>
  \<open>a_fullname = None\<close>: reading \<open>author.fullname\<close> raises \<open>AttributeError\<close>.
  \<open>a_details = None\<close>: the \<open>try\<close> block reading the details raises at its first
  access, which leaves the four values at their initial ones.
\<close>

record author =
  a_name :: string
  a_fullname :: "string option"
  a_details :: "author_details option"

record submission =
  s_id :: string
  s_created_utc :: timestamp
  s_author :: "author option"
  s_title :: string
  s_subreddit_display_name :: string
  s_selftext :: "string option"
  s_url :: string
  s_post_hint :: "string option"
  s_link_flair_text :: "string option"
  s_score :: int
  s_num_comments :: int
  s_permalink :: string

text \<open>
  One turn of \<open>for submission in subreddit.new(limit=2000)\<close>: the listing yields a
  submission, or an exception leaves the loop for the \<open>except\<close> of the subreddit
  (a failed fetch, or any exception of the body that no inner handler catches).
\<close>

datatype feed_item = Yields submission | Raises

subsection \<open>Image text\<close>

definition image_exts :: "string list" where
  "image_exts = [''.png'', ''.jpg'', ''.jpeg'', ''.gif'']"

definition has_image_ext :: "string \<Rightarrow> bool" where
  "has_image_ext url = list_ex (\<lambda>ext. endswith (lower url) ext) image_exts"

text \<open>
  \<open>extract_text_from_image\<close>: the download and the OCR are the parameter \<open>ocr\<close>
  (\<open>None\<close> when either fails); the two guards before them are the function's own.
\<close>

definition extract_text_from_image :: "(string \<Rightarrow> string option) \<Rightarrow> string \<Rightarrow> string option" where
  "extract_text_from_image ocr image_url =
     (if image_url = [] then None
      else if has_image_ext image_url then ocr image_url
      else None)"

subsection \<open>The statements\<close>

datatype db_error = Unique_violation string

definition post_exists :: "database \<Rightarrow> string \<Rightarrow> bool" where
  "post_exists db pid = list_ex (\<lambda>p. p_id p = pid) (posts_raw db)"

definition post_of_author :: "database \<Rightarrow> string \<Rightarrow> post option" where
  "post_of_author db author_id = find (\<lambda>p. p_author_id p = Some author_id) (posts_raw db)"

definition delete_post :: "database \<Rightarrow> string \<Rightarrow> database" where
  "delete_post db pid = db\<lparr>posts_raw := filter (\<lambda>p. p_id p \<noteq> pid) (posts_raw db)\<rparr>"

definition user_exists :: "database \<Rightarrow> string \<Rightarrow> bool" where
  "user_exists db uid = list_ex (\<lambda>u. u_id u = uid) (users db)"

definition coalesce :: "'a option \<Rightarrow> 'a option \<Rightarrow> 'a option" where
  "coalesce a b = (case a of None \<Rightarrow> b | Some x \<Rightarrow> Some x)"

text \<open>The \<open>DO UPDATE SET\<close> of the user upsert: \<open>old\<close> is the stored row, \<open>new\<close> is \<open>EXCLUDED\<close>.\<close>

definition merge_user :: "user \<Rightarrow> user \<Rightarrow> user" where
  "merge_user old new =
     old\<lparr>u_username := u_username new,
         u_created_utc := coalesce (u_created_utc new) (u_created_utc old),
         u_comment_karma := coalesce (u_comment_karma new) (u_comment_karma old),
         u_link_karma := coalesce (u_link_karma new) (u_link_karma old),
         u_is_verified := coalesce (u_is_verified new) (u_is_verified old)\<rparr>"

text \<open>
  \<open>INSERT INTO users ... ON CONFLICT (id) DO UPDATE\<close>. Under \<open>users_username_key\<close>
  the statement fails when another row already holds the username.
\<close>

definition upsert_user :: "database \<Rightarrow> user \<Rightarrow> db_error + database" where
  "upsert_user db new =
     (if username_unique db
         \<and> list_ex (\<lambda>u. u_username u = u_username new \<and> u_id u \<noteq> u_id new) (users db)
      then Inl (Unique_violation ''users_username_key'')
      else if user_exists db (u_id new)
      then Inr (db\<lparr>users := map (\<lambda>u. if u_id u = u_id new then merge_user u new else u) (users db)\<rparr>)
      else Inr (db\<lparr>users := users db @ [new]\<rparr>))"

text \<open>
  \<open>INSERT INTO posts_raw ... ON CONFLICT (id) DO NOTHING\<close>; the row gets the column
  default as its status. Under \<open>idx_posts_url_unique\<close> the statement fails when
  another row already holds the url.
\<close>

definition insert_post :: "database \<Rightarrow> post \<Rightarrow> db_error + database" where
  "insert_post db new =
     (if post_exists db (p_id new) then Inr db
      else if url_unique db \<and> list_ex (\<lambda>p. p_url p = p_url new) (posts_raw db)
      then Inl (Unique_violation ''idx_posts_url_unique'')
      else Inr (db\<lparr>posts_raw := posts_raw db @ [new\<lparr>p_status := status_default db\<rparr>]\<rparr>))"

subsection \<open>The loop body of \<open>ingest_with_reddit_api\<close>\<close>

text \<open>
  The connection: \<open>committed\<close> is what storage holds, \<open>working\<close> what the open
  transaction sees. \<open>conn.rollback()\<close> sets \<open>working\<close> back to \<open>committed\<close>,
  \<open>conn.commit()\<close> stores \<open>working\<close>. The three counters are the loop's own.
\<close>

record ingest_state =
  committed :: database
  working :: database
  count :: nat
  skipped_existing_users :: nat
  replaced_posts :: nat

definition rollback :: "ingest_state \<Rightarrow> ingest_state" where
  "rollback st = st\<lparr>working := committed st\<rparr>"

definition commit :: "ingest_state \<Rightarrow> ingest_state" where
  "commit st = st\<lparr>committed := working st\<rparr>"

datatype outcome =
    Stop_older_than_3_days
  | Stop_already_exists
  | Skip_no_author
  | Skip_author_id_too_long
  | Skipped_protected
  | Skipped_identical
  | User_insert_failed
  | Post_insert_failed
  | Inserted
  | Replaced

definition author_id_of :: "author \<Rightarrow> string" where
  "author_id_of a = (case a_fullname a of Some f \<Rightarrow> f | None \<Rightarrow> ''t2_'' @ a_name a)"

text \<open>\<open>existing_status in ['sent', 'selected', 'answered']\<close>; a null status is not in the list.\<close>

definition keeps_old_post :: "string option \<Rightarrow> bool" where
  "keeps_old_post status =
     (case status of None \<Rightarrow> False | Some st \<Rightarrow> st \<in> set [''sent'', ''selected'', ''answered''])"

definition user_data :: "author \<Rightarrow> string \<Rightarrow> user" where
  "user_data a author_id =
     (case a_details a of
        None \<Rightarrow>
          \<lparr>u_id = author_id, u_username = a_name a, u_created_utc = None,
           u_comment_karma = None, u_link_karma = None, u_is_verified = Some False\<rparr>
      | Some d \<Rightarrow>
          \<lparr>u_id = author_id, u_username = a_name a, u_created_utc = ad_created_utc d,
           u_comment_karma = ad_comment_karma d, u_link_karma = ad_link_karma d,
           u_is_verified = (case ad_has_verified_email d of None \<Rightarrow> Some False | Some v \<Rightarrow> v)\<rparr>)"

definition is_image_post :: "submission \<Rightarrow> bool" where
  "is_image_post sub = (s_post_hint sub = Some ''image'' \<or> has_image_ext (s_url sub))"

definition post_data :: "(string \<Rightarrow> string option) \<Rightarrow> submission \<Rightarrow> string \<Rightarrow> post" where
  "post_data ocr sub author_id =
     \<lparr>p_id = s_id sub,
      p_subreddit = s_subreddit_display_name sub,
      p_created_utc = s_created_utc sub,
      p_title = s_title sub,
      p_body = (case s_selftext sub of None \<Rightarrow> [] | Some t \<Rightarrow> t),
      p_img_text = (if is_image_post sub then extract_text_from_image ocr (s_url sub) else None),
      p_link_flair_text = s_link_flair_text sub,
      p_score = s_score sub,
      p_num_comments = s_num_comments sub,
      p_url = ''https://reddit.com'' @ s_permalink sub,
      p_author_id = Some author_id,
      p_status = None\<rparr>"

text \<open>
  From \<open>Check if user exists in users table\<close> to the end of the body: the user row is
  written only when no row with the author's id exists; then the post is inserted.
  \<open>replacing\<close> says whether the existing post of the author has just been deleted.
\<close>

definition store_submission ::
  "(string \<Rightarrow> string option) \<Rightarrow> submission \<Rightarrow> author \<Rightarrow> string \<Rightarrow> bool \<Rightarrow> ingest_state
     \<Rightarrow> outcome \<times> ingest_state" where
  "store_submission ocr sub a author_id replacing st =
     (case (if user_exists (working st) author_id then Inr (working st)
            else upsert_user (working st) (user_data a author_id)) of
        Inl e \<Rightarrow> (User_insert_failed, rollback st)
      | Inr db1 \<Rightarrow>
          (case insert_post db1 (post_data ocr sub author_id) of
             Inl e \<Rightarrow> (Post_insert_failed, rollback st)
           | Inr db2 \<Rightarrow>
               ((if replacing then Replaced else Inserted),
                st\<lparr>working := db2, count := count st + 1\<rparr>)))"

text \<open>The whole body, for one submission.\<close>

definition process_submission ::
  "(string \<Rightarrow> string option) \<Rightarrow> timestamp \<Rightarrow> submission \<Rightarrow> ingest_state \<Rightarrow> outcome \<times> ingest_state" where
  "process_submission ocr three_days_ago sub st =
     (if s_created_utc sub < three_days_ago then (Stop_older_than_3_days, st)
      else if post_exists (working st) (s_id sub) then (Stop_already_exists, st)
      else
        (case s_author sub of
           None \<Rightarrow> (Skip_no_author, st)
         | Some a \<Rightarrow>
             let author_id = author_id_of a in
             if length author_id > 50 then (Skip_author_id_too_long, st)
             else
               (case post_of_author (working st) author_id of
                  None \<Rightarrow> store_submission ocr sub a author_id False st
                | Some existing \<Rightarrow>
                    if keeps_old_post (p_status existing) then
                      (Skipped_protected,
                       st\<lparr>skipped_existing_users := skipped_existing_users st + 1\<rparr>)
                    else if p_title existing = s_title sub
                            \<and> p_subreddit existing = s_subreddit_display_name sub then
                      (Skipped_identical,
                       st\<lparr>skipped_existing_users := skipped_existing_users st + 1\<rparr>)
                    else
                      store_submission ocr sub a author_id True
                        (st\<lparr>working := delete_post (working st) (p_id existing),
                            replaced_posts := replaced_posts st + 1\<rparr>))))"

definition stops :: "outcome \<Rightarrow> bool" where
  "stops r = (r = Stop_older_than_3_days \<or> r = Stop_already_exists)"

text \<open>
  The \<open>for\<close> loop over one subreddit's listing: \<open>break\<close> and exhaustion end it
  normally (\<open>Inr\<close>), an exception ends it in the subreddit's \<open>except\<close> (\<open>Inl\<close>).
  The outcomes are collected in order.
\<close>

fun ingest_loop ::
  "(string \<Rightarrow> string option) \<Rightarrow> timestamp \<Rightarrow> feed_item list \<Rightarrow> ingest_state
     \<Rightarrow> (ingest_state + ingest_state) \<times> outcome list" where
  "ingest_loop ocr three_days_ago [] st = (Inr st, [])"
| "ingest_loop ocr three_days_ago (Raises # rest) st = (Inl st, [])"
| "ingest_loop ocr three_days_ago (Yields sub # rest) st =
     (case process_submission ocr three_days_ago sub st of
        (r, st') \<Rightarrow>
          if stops r then (Inr st', [r])
          else (case ingest_loop ocr three_days_ago rest st' of
                  (res, rs) \<Rightarrow> (res, r # rs)))"

text \<open>
  One subreddit: fresh counters, the loop, then \<open>conn.commit()\<close>; in the \<open>except\<close>
  branch \<open>conn.rollback()\<close>.
\<close>

definition ingest_subreddit ::
  "(string \<Rightarrow> string option) \<Rightarrow> timestamp \<Rightarrow> feed_item list \<Rightarrow> ingest_state
     \<Rightarrow> ingest_state \<times> outcome list" where
  "ingest_subreddit ocr three_days_ago feed st =
     (case ingest_loop ocr three_days_ago feed
             (st\<lparr>count := 0, skipped_existing_users := 0, replaced_posts := 0\<rparr>) of
        (Inr st', rs) \<Rightarrow> (commit st', rs)
      | (Inl st', rs) \<Rightarrow> (rollback st', rs))"

fun ingest_subreddits ::
  "(string \<Rightarrow> string option) \<Rightarrow> timestamp \<Rightarrow> feed_item list list \<Rightarrow> ingest_state
     \<Rightarrow> ingest_state \<times> outcome list list" where
  "ingest_subreddits ocr three_days_ago [] st = (st, [])"
| "ingest_subreddits ocr three_days_ago (feed # feeds) st =
     (case ingest_subreddit ocr three_days_ago feed st of
        (st', rs) \<Rightarrow>
          (case ingest_subreddits ocr three_days_ago feeds st' of
             (st'', rss) \<Rightarrow> (st'', rs # rss)))"

text \<open>
  \<open>ingest_with_reddit_api\<close>: \<open>config_ok\<close> is whether the API credentials are set,
  \<open>conn_ok\<close> whether the connection opens; \<open>feeds\<close> holds the listing of each
  configured subreddit. Closing the connection leaves the committed database.
\<close>

definition ingest_with_reddit_api ::
  "bool \<Rightarrow> bool \<Rightarrow> (string \<Rightarrow> string option) \<Rightarrow> timestamp \<Rightarrow> feed_item list list \<Rightarrow> database
     \<Rightarrow> bool \<times> database \<times> outcome list list" where
  "ingest_with_reddit_api config_ok conn_ok ocr now feeds db =
     (if config_ok then
        (if conn_ok then
           (case ingest_subreddits ocr (now - days 3) feeds
                   \<lparr>committed = db, working = db, count = 0, skipped_existing_users = 0,
                    replaced_posts = 0\<rparr> of
              (st, rss) \<Rightarrow> (True, committed st, rss))
         else (False, db, []))
      else (False, db, []))"

subsection \<open>\<open>cleanup_old_posts\<close>\<close>

definition reap_protected :: "string option \<Rightarrow> bool" where
  "reap_protected status =
     (case status of
        None \<Rightarrow> False
      | Some st \<Rightarrow> st \<in> set [''selected'', ''answered'', ''sent'', ''lead''])"

text \<open>The \<open>WHERE\<close> clause shared by the count and the delete.\<close>

definition to_delete :: "timestamp \<Rightarrow> post \<Rightarrow> bool" where
  "to_delete five_days_ago p = (p_created_utc p < five_days_ago \<and> (reap_protected (p_status p) = False))"

definition cleanup_old_posts :: "bool \<Rightarrow> timestamp \<Rightarrow> database \<Rightarrow> bool \<times> database" where
  "cleanup_old_posts conn_ok now db =
     (if conn_ok then
        (let five_days_ago = now - days 5;
             posts_to_delete = length (filter (to_delete five_days_ago) (posts_raw db))
         in if posts_to_delete > 0
            then (True, db\<lparr>posts_raw := filter (\<lambda>p. to_delete five_days_ago p = False) (posts_raw db)\<rparr>)
            else (True, db))
      else (False, db))"

section \<open>Vocabulary of the properties and example inputs\<close>

text \<open>
  Two conditions on what the probes of the dashboard's check return; they are
  conditions on the probes, not on the process. \<open>probe_shows_not_found\<close>: with
  \<open>psutil\<close>, \<open>pid_exists\<close> is false; without it, signal 0 fails.
  \<open>probe_shows_zombie\<close>: with \<open>psutil\<close>, the process opens and its status is
  \<open>STATUS_ZOMBIE\<close>; without it, signal 0 succeeds and \<open>ps\<close> completes with status 0
  and prints a state with \<open>Z\<close> or \<open><defunct>\<close>. A zombie whose \<open>ps\<close> probe times
  out or fails is therefore not shown as one: \<open>probe_shows_zombie\<close> is false of it.
\<close>

definition probe_shows_not_found :: "os_env \<Rightarrow> int \<Rightarrow> bool" where
  "probe_shows_not_found os p =
     (if psutil_available os then pid_exists (procs os p) = False
      else kill0_ok (procs os p) = False)"

definition probe_shows_zombie :: "os_env \<Rightarrow> int \<Rightarrow> bool" where
  "probe_shows_zombie os p =
     (if psutil_available os then
        pid_exists (procs os p) \<and> process_open (procs os p) = Returns ()
          \<and> process_status (procs os p) = Returns STATUS_ZOMBIE
      else
        kill0_ok (procs os p)
          \<and> (case ps_stat (procs os p) of
                Completed rc out \<Rightarrow>
                  rc = 0 \<and> (py_in ''Z'' (strip out) \<or> py_in ''<defunct>'' (strip out))
              | TimeoutExpired \<Rightarrow> False
              | SubprocessError \<Rightarrow> False
              | PsOSError \<Rightarrow> False))"

text \<open>The part of the health check's state that is not narrative.\<close>

definition core :: "hc_state \<Rightarrow> issue list \<times> applied_fix list \<times> database" where
  "core s = (hc_issues s, hc_fixes s, hc_db s)"

subsection \<open>A recorded run and four views of its process\<close>

definition running_row :: pipeline_row where
  "running_row = \<lparr>last_run_timestamp = Some 1000, is_running = Some True,
                   last_completion_timestamp = None, process_pid = Some 4242\<rparr>"

definition running_db :: database where
  "running_db = \<lparr>pipeline_status = Some running_row, posts_raw = [], users = [],
                  status_default = Some ''open'', username_unique = True, url_unique = False\<rparr>"

definition pidless_db :: database where
  "pidless_db = \<lparr>pipeline_status = Some (running_row\<lparr>process_pid := None\<rparr>), posts_raw = [],
                  users = [], status_default = Some ''open'', username_unique = True,
                  url_unique = False\<rparr>"

text \<open>Pid 4242 now belongs to an editor.\<close>

definition foreign_view :: proc_view where
  "foreign_view =
     \<lparr>pid_exists = True, process_open = Returns (), process_status = Returns ''sleeping'',
      process_cmdline = Returns [''/usr/bin/vim'', ''notes.txt''], kill0_ok = True,
      ps_stat = Completed 0 ''S'', ps_stat_comm = Completed 0 ''S vim''\<rparr>"

definition foreign_os :: os_env where
  "foreign_os = \<lparr>psutil_available = True, procs = (\<lambda>p. foreign_view), process_iter = [],
                  ps_aux = Completed 0 []\<rparr>"

text \<open>No process has pid 4242.\<close>

definition gone_view :: proc_view where
  "gone_view =
     \<lparr>pid_exists = False, process_open = NoSuchProcess, process_status = NoSuchProcess,
      process_cmdline = NoSuchProcess, kill0_ok = False,
      ps_stat = Completed 1 [], ps_stat_comm = Completed 1 []\<rparr>"

definition gone_os :: os_env where
  "gone_os = \<lparr>psutil_available = True, procs = (\<lambda>p. gone_view), process_iter = [],
               ps_aux = Completed 0 []\<rparr>"

text \<open>The process runs, and \<open>psutil\<close> is refused its command line.\<close>

definition denied_view :: proc_view where
  "denied_view =
     \<lparr>pid_exists = True, process_open = Returns (), process_status = Returns ''running'',
      process_cmdline = AccessDenied, kill0_ok = True,
      ps_stat = Completed 0 ''R'', ps_stat_comm = Completed 0 ''R bash''\<rparr>"

definition denied_os :: os_env where
  "denied_os = \<lparr>psutil_available = True, procs = (\<lambda>p. denied_view), process_iter = [],
                 ps_aux = Completed 0 []\<rparr>"

text \<open>No \<open>psutil\<close>; the process takes signal 0 and \<open>ps\<close> times out.\<close>

definition timeout_view :: proc_view where
  "timeout_view =
     \<lparr>pid_exists = True, process_open = Returns (), process_status = Returns ''running'',
      process_cmdline = Returns [''bash'', ''run_daily_reddit_pipeline.sh''], kill0_ok = True,
      ps_stat = TimeoutExpired, ps_stat_comm = TimeoutExpired\<rparr>"

definition timeout_os :: os_env where
  "timeout_os = \<lparr>psutil_available = False, procs = (\<lambda>p. timeout_view), process_iter = [],
                  ps_aux = TimeoutExpired\<rparr>"

text \<open>No \<open>psutil\<close>; pid 4242 takes signal 0 and \<open>ps\<close> prints the zombie state.\<close>

definition zombie_view :: proc_view where
  "zombie_view =
     \<lparr>pid_exists = True, process_open = Returns (), process_status = Returns ''zombie'',
      process_cmdline = Returns [], kill0_ok = True,
      ps_stat = Completed 0 ''Z'', ps_stat_comm = Completed 0 ''Z    sh <defunct>''\<rparr>"

definition zombie_os :: os_env where
  "zombie_os = \<lparr>psutil_available = False, procs = (\<lambda>p. zombie_view), process_iter = [],
                 ps_aux = Completed 0 []\<rparr>"

text \<open>
  No \<open>psutil\<close>; pid 4242 is a zombie (its status, were it read, is \<open>zombie\<close>), it
  takes signal 0, and both \<open>ps\<close> probes time out.
\<close>

definition zombie_unprobed_view :: proc_view where
  "zombie_unprobed_view =
     \<lparr>pid_exists = True, process_open = Returns (), process_status = Returns ''zombie'',
      process_cmdline = Returns [], kill0_ok = True,
      ps_stat = TimeoutExpired, ps_stat_comm = TimeoutExpired\<rparr>"

definition zombie_unprobed_os :: os_env where
  "zombie_unprobed_os =
     \<lparr>psutil_available = False, procs = (\<lambda>p. zombie_unprobed_view), process_iter = [],
      ps_aux = TimeoutExpired\<rparr>"

subsection \<open>Posts, authors and candidates\<close>

definition old_post :: "string \<Rightarrow> string \<Rightarrow> string option \<Rightarrow> post" where
  "old_post pid author status =
     \<lparr>p_id = pid, p_subreddit = ''dating'', p_created_utc = days 94,
      p_title = ''First question'', p_body = ''text'', p_img_text = None,
      p_link_flair_text = None, p_score = 3, p_num_comments = 1,
      p_url = ''https://reddit.com/r/dating/'' @ pid, p_author_id = Some author,
      p_status = status\<rparr>"

definition redditor :: "string \<Rightarrow> string \<Rightarrow> author" where
  "redditor name fullname =
     \<lparr>a_name = name, a_fullname = Some fullname,
      a_details = Some \<lparr>ad_created_utc = Some (days 10), ad_comment_karma = Some 10,
                        ad_link_karma = Some 2, ad_has_verified_email = Some (Some True)\<rparr>\<rparr>"

definition candidate :: "string \<Rightarrow> author \<Rightarrow> string \<Rightarrow> submission" where
  "candidate sid a title =
     \<lparr>s_id = sid, s_created_utc = days 99, s_author = Some a, s_title = title,
      s_subreddit_display_name = ''dating'', s_selftext = Some ''body'',
      s_url = ''https://reddit.com/r/dating/'' @ sid, s_post_hint = None,
      s_link_flair_text = None, s_score = 1, s_num_comments = 0,
      s_permalink = ''/r/dating/'' @ sid\<rparr>"

definition stored_user :: "string \<Rightarrow> string \<Rightarrow> user" where
  "stored_user uid name =
     \<lparr>u_id = uid, u_username = name, u_created_utc = None, u_comment_karma = None,
      u_link_karma = Some 7, u_is_verified = Some False\<rparr>"

definition no_ocr :: "string \<Rightarrow> string option" where
  "no_ocr url = None"

text \<open>Three posts created six days before \<open>days 100\<close>.\<close>

definition reap_db :: database where
  "reap_db =
     \<lparr>pipeline_status = None,
      posts_raw = [old_post ''a1'' ''t2_u1'' (Some ''open''),
                   old_post ''a2'' ''t2_u2'' (Some ''selected''),
                   old_post ''a3'' ''t2_u3'' None],
      users = [], status_default = Some ''open'', username_unique = True, url_unique = False\<rparr>"

text \<open>Author \<open>u1\<close> has one post, in status \<open>lead\<close>.\<close>

definition lead_db :: database where
  "lead_db =
     \<lparr>pipeline_status = None, posts_raw = [old_post ''a1'' ''t2_u1'' (Some ''lead'')],
      users = [stored_user ''t2_u1'' ''u1''], status_default = Some ''open'',
      username_unique = True, url_unique = False\<rparr>"

text \<open>The username \<open>bob\<close> is stored under an id other than the one the feed now reports.\<close>

definition bob_db :: database where
  "bob_db =
     \<lparr>pipeline_status = None, posts_raw = [], users = [stored_user ''t2_old'' ''bob''],
      status_default = Some ''open'', username_unique = True, url_unique = False\<rparr>"

text \<open>Author \<open>u1\<close> is stored, with no comment karma, and has no post.\<close>

definition known_author_db :: database where
  "known_author_db =
     \<lparr>pipeline_status = None, posts_raw = [], users = [stored_user ''t2_u1'' ''u1''],
      status_default = Some ''open'', username_unique = True, url_unique = False\<rparr>"

definition fresh_state :: "database \<Rightarrow> ingest_state" where
  "fresh_state db =
     \<lparr>committed = db, working = db, count = 0, skipped_existing_users = 0, replaced_posts = 0\<rparr>"

section \<open>Properties\<close>

subsection \<open>Auxiliary facts\<close>

lemmas ingest_defs =
  ingest_with_reddit_api_def ingest_subreddit_def process_submission_def store_submission_def
  post_exists_def post_of_author_def delete_post_def user_exists_def upsert_user_def
  insert_post_def rollback_def commit_def author_id_of_def keeps_old_post_def user_data_def
  post_data_def is_image_post_def has_image_ext_def image_exts_def extract_text_from_image_def
  stops_def days_def endswith_def lower_def lower_char_def Let_def

lemmas example_defs =
  running_row_def running_db_def pidless_db_def foreign_view_def foreign_os_def gone_view_def
  gone_os_def denied_view_def denied_os_def timeout_view_def timeout_os_def
  zombie_view_def zombie_os_def zombie_unprobed_view_def zombie_unprobed_os_def old_post_def
  redditor_def candidate_def stored_user_def no_ocr_def reap_db_def lead_db_def bob_db_def
  known_author_db_def fresh_state_def

lemma has_keyword_iff:
  "has_keyword s = (py_in ''run_daily_reddit_pipeline'' s \<or> py_in ''ingest.py'' s
                    \<or> py_in ''run_gemini_analysis.py'' s)"
  by (simp add: has_keyword_def pipeline_keywords_def)

lemma foreign_not_running:
  assumes "psutil_available os" "p \<noteq> 0" "pid_exists (procs os p)"
    "process_open (procs os p) = Returns ()" "process_status (procs os p) = Returns st"
    "st \<noteq> STATUS_ZOMBIE" "process_cmdline (procs os p) = Returns args"
    "has_keyword (join '' '' args) = False"
  shows "is_process_running (Some p) os = False"
  using assms by (simp add: is_process_running_def has_keyword_iff Let_def)

lemma foreign_not_pipeline:
  assumes "psutil_available os" "p \<noteq> 0" "pid_exists (procs os p)"
    "process_open (procs os p) = Returns ()" "process_status (procs os p) = Returns st"
    "st \<noteq> STATUS_ZOMBIE" "process_cmdline (procs os p) = Returns args"
    "has_keyword (join '' '' args) = False"
  shows "is_pipeline_process_running (Some p) os
           = Inr (False, Not_a_pipeline_process p (join '' '' args))"
  using assms by (simp add: is_pipeline_process_running_def has_keyword_def Let_def)

lemma not_found_not_running:
  "probe_shows_not_found os p \<Longrightarrow> is_process_running (Some p) os = False"
  by (simp add: probe_shows_not_found_def is_process_running_def Let_def split: if_splits)

lemma zombie_not_running:
  "probe_shows_zombie os p \<Longrightarrow> is_process_running (Some p) os = False"
  by (auto simp: probe_shows_zombie_def is_process_running_def Let_def split: if_splits ps_run.splits)

text \<open>A read that finds a running row whose process the check rejects repairs the row.\<close>

lemma stale_read:
  assumes "pipeline_status db = Some row" "is_running row = Some True"
    "process_pid row = Some p" "p \<noteq> 0" "is_process_running (Some p) os = False"
  shows "get_pipeline_status True True os now db
           = (status_of_row row False,
              db\<lparr>pipeline_status := Some (row\<lparr>is_running := Some False, process_pid := None\<rparr>)\<rparr>,
              [Auto_fixing_stale_state (Some p), St_warning_auto_fixed (Some p)])"
  using assms
  by (simp add: get_pipeline_status_def truthy_bool_def truthy_pid_def update_pipeline_status_def)

lemma read_not_running:
  assumes "pipeline_status db = Some row" "is_running row = Some False"
  shows "get_pipeline_status True fix_ok os now db = (status_of_row row False, db, [])"
  using assms by (simp add: get_pipeline_status_def truthy_bool_def)

lemma read_without_pid:
  assumes "pipeline_status db = Some row" "is_running row = Some True" "process_pid row = None"
  shows "get_pipeline_status read_ok fix_ok os now db
           = (if read_ok then (status_of_row row True, db, [])
              else (default_status, db, [Error_getting_status]))"
  using assms by (simp add: get_pipeline_status_def truthy_bool_def truthy_pid_def)

subsubsection \<open>The health check step by step\<close>

lemma core_eq:
  "core s = core s'
     \<longleftrightarrow> hc_issues s = hc_issues s' \<and> hc_fixes s = hc_fixes s' \<and> hc_db s = hc_db s'"
  by (auto simp: core_def)

lemma check_long_running_keeps:
  "hc_db (check_long_running verbose now row s) = hc_db s"
  "hc_fixes (check_long_running verbose now row s) = hc_fixes s"
  by (simp_all add: check_long_running_def split: option.splits)

lemma report_orphans_keeps:
  "hc_db (report_orphans verbose db_status orphaned s) = hc_db s
   \<and> hc_fixes (report_orphans verbose db_status orphaned s) = hc_fixes s"
  by (induction orphaned arbitrary: s) simp_all

lemma check_orphans_keeps:
  assumes "check_orphans verbose os db_status s = Inr s'"
  shows "hc_db s' = hc_db s \<and> hc_fixes s' = hc_fixes s"
  using assms
  by (auto simp: check_orphans_def Let_def report_orphans_keeps split: sum.splits if_splits)

lemma check_stale_without_pid:
  assumes "process_pid row = None"
  shows "check_stale verbose fix_ok os row s = Inr s"
  using assms by (simp add: check_stale_def truthy_pid_def)

lemma check_status_without_pid:
  assumes "db_status = None \<or> db_status = Some row \<and> process_pid row = None"
  shows "\<exists>s2. check_status verbose fix_ok os now db_status s0 = Inr s2
              \<and> hc_db s2 = hc_db s0 \<and> hc_fixes s2 = hc_fixes s0"
  using assms
  by (auto simp: check_status_def check_stale_without_pid check_long_running_keeps)

lemma perform_health_check_steps:
  "perform_health_check verbose True read_ok fix_ok os now db =
     (case check_status verbose fix_ok os now (fst (get_pipeline_status_from_db read_ok db))
              \<lparr>hc_issues = [], hc_fixes = [], hc_db = db,
               hc_out = say verbose [N_starting] @ snd (get_pipeline_status_from_db read_ok db)\<rparr> of
        Inl (e, s) \<Rightarrow> failed_check verbose e (hc_db s) (hc_out s)
      | Inr s2 \<Rightarrow>
          (case check_orphans verbose os (fst (get_pipeline_status_from_db read_ok db)) s2 of
             Inl e \<Rightarrow> failed_check verbose e (hc_db s2) (hc_out s2 @ say verbose [N_checking_orphans])
           | Inr s3 \<Rightarrow>
               (\<lparr>healthy = (length (hc_issues s3) = 0), issues_found = hc_issues s3,
                 fixes_applied = hc_fixes s3\<rparr>,
                hc_db s3, hc_out s3 @ summary verbose s3)))"
  by (simp add: perform_health_check_def case_prod_beta)

lemma health_check_without_pid:
  assumes "pipeline_status db = Some row" "process_pid row = None"
  shows "fst (snd (perform_health_check verbose config_ok read_ok fix_ok os now db)) = db
     \<and> fixes_applied (fst (perform_health_check verbose config_ok read_ok fix_ok os now db)) = []"
proof (cases config_ok)
  case False
  then show ?thesis by (simp add: perform_health_check_def failed_check_def)
next
  case True
  let ?st = "fst (get_pipeline_status_from_db read_ok db)"
  let ?s0 = "\<lparr>hc_issues = [], hc_fixes = [], hc_db = db,
              hc_out = say verbose [N_starting] @ snd (get_pipeline_status_from_db read_ok db)\<rparr>"
  have "?st = None \<or> ?st = Some row \<and> process_pid row = None"
    using assms by (simp add: get_pipeline_status_from_db_def)
  from check_status_without_pid[OF this, of verbose fix_ok os now ?s0]
  obtain s2 where s2: "check_status verbose fix_ok os now ?st ?s0 = Inr s2"
    "hc_db s2 = db" "hc_fixes s2 = []"
    by auto
  show ?thesis
  proof (cases "check_orphans verbose os ?st s2")
    case (Inl e)
    with True s2 show ?thesis by (simp add: perform_health_check_steps failed_check_def)
  next
    case (Inr s3)
    from check_orphans_keeps[OF Inr] True s2 Inr show ?thesis
      by (simp add: perform_health_check_steps)
  qed
qed

text \<open>Each step computes the same issues, fixes and database whatever \<open>verbose\<close> is.\<close>

lemma check_stale_core:
  assumes "core s = core s'"
  shows "map_sum id core (check_stale v fix_ok os row s)
       = map_sum id core (check_stale v' fix_ok os row s')"
  using assms
  by (auto simp: check_stale_def core_def Let_def split: sum.splits prod.splits)

lemma check_long_running_core:
  assumes "core s = core s'"
  shows "core (check_long_running v now row s) = core (check_long_running v' now row s')"
  using assms by (auto simp: check_long_running_def core_def split: option.splits)

lemma report_orphans_core:
  assumes "core s = core s'"
  shows "core (report_orphans v db_status orphaned s)
       = core (report_orphans v' db_status orphaned s')"
  using assms
proof (induction orphaned arbitrary: s s')
  case Nil
  then show ?case by simp
next
  case (Cons proc rest)
  show ?case
  proof (cases "is_tracked db_status proc")
    case True
    then show ?thesis using Cons.IH[OF Cons.prems] by simp
  next
    case False
    have "core (s\<lparr>hc_issues := hc_issues s @ [Orphaned_process (o_pid proc) (o_cmdline proc)],
                  hc_out := hc_out s
                    @ say v [N_warning (Orphaned_process (o_pid proc) (o_cmdline proc))]\<rparr>)
        = core (s'\<lparr>hc_issues := hc_issues s' @ [Orphaned_process (o_pid proc) (o_cmdline proc)],
                   hc_out := hc_out s'
                     @ say v' [N_warning (Orphaned_process (o_pid proc) (o_cmdline proc))]\<rparr>)"
      using Cons.prems by (simp add: core_def)
    from Cons.IH[OF this] False show ?thesis by simp
  qed
qed

lemma check_orphans_core:
  assumes "core s = core s'"
  shows "map_sum id core (check_orphans v os db_status s)
       = map_sum id core (check_orphans v' os db_status s')"
proof (cases "find_orphaned_pipeline_processes os")
  case (Inl e)
  then show ?thesis by (simp add: check_orphans_def)
next
  case (Inr orphaned)
  have a: "core (s\<lparr>hc_out := hc_out s @ say v [N_checking_orphans]\<rparr>)
         = core (s'\<lparr>hc_out := hc_out s' @ say v' [N_checking_orphans]\<rparr>)"
    using assms by (simp add: core_def)
  show ?thesis
  proof (cases "orphaned = []")
    case True
    with Inr assms show ?thesis by (simp add: check_orphans_def core_def)
  next
    case False
    with Inr report_orphans_core[OF a] show ?thesis by (simp add: check_orphans_def)
  qed
qed

lemma check_status_core:
  assumes "core s = core s'"
  shows "map_sum (map_prod id core) core (check_status v fix_ok os now db_status s)
       = map_sum (map_prod id core) core (check_status v' fix_ok os now db_status s')"
proof (cases db_status)
  case None
  then show ?thesis using assms by (simp add: check_status_def core_def)
next
  case (Some row)
  have a: "core (s\<lparr>hc_out := hc_out s @ say v [N_database_status row]\<rparr>)
         = core (s'\<lparr>hc_out := hc_out s' @ say v' [N_database_status row]\<rparr>)"
    using assms by (simp add: core_def)
  from check_stale_core[OF a, of v fix_ok os row v'] check_long_running_core a Some
  show ?thesis
    by (cases "check_stale v fix_ok os row (s\<lparr>hc_out := hc_out s @ say v [N_database_status row]\<rparr>)";
        cases "check_stale v' fix_ok os row
                 (s'\<lparr>hc_out := hc_out s' @ say v' [N_database_status row]\<rparr>)")
       (simp_all add: check_status_def)
qed

lemma health_verbose_independent:
  "fst (perform_health_check v config_ok read_ok fix_ok os now db)
     = fst (perform_health_check v' config_ok read_ok fix_ok os now db)
   \<and> fst (snd (perform_health_check v config_ok read_ok fix_ok os now db))
     = fst (snd (perform_health_check v' config_ok read_ok fix_ok os now db))"
proof (cases config_ok)
  case False
  then show ?thesis by (simp add: perform_health_check_def failed_check_def)
next
  case True
  let ?st = "fst (get_pipeline_status_from_db read_ok db)"
  let ?s0 = "\<lambda>v. \<lparr>hc_issues = [], hc_fixes = [], hc_db = db,
               hc_out = say v [N_starting] @ snd (get_pipeline_status_from_db read_ok db)\<rparr>"
  have c0: "core (?s0 v) = core (?s0 v')" by (simp add: core_def)
  note r = check_status_core[OF c0, of v fix_ok os now ?st v']
  show ?thesis
  proof (cases "check_status v fix_ok os now ?st (?s0 v)")
    case (Inl a)
    then obtain e s where a: "check_status v fix_ok os now ?st (?s0 v) = Inl (e, s)"
      by (cases a) auto
    with r obtain s' where b: "check_status v' fix_ok os now ?st (?s0 v') = Inl (e, s')"
      "core s = core s'"
      by (cases "check_status v' fix_ok os now ?st (?s0 v')") auto
    with a True show ?thesis by (simp add: perform_health_check_steps failed_check_def core_eq)
  next
    case (Inr s2)
    with r obtain s2' where b: "check_status v' fix_ok os now ?st (?s0 v') = Inr s2'"
      "core s2 = core s2'"
      by (cases "check_status v' fix_ok os now ?st (?s0 v')") auto
    note o = check_orphans_core[OF b(2), of v os ?st v']
    show ?thesis
    proof (cases "check_orphans v os ?st s2")
      case (Inl e)
      with o have "check_orphans v' os ?st s2' = Inl e"
        by (cases "check_orphans v' os ?st s2'") auto
      with Inl Inr b True show ?thesis
        by (simp add: perform_health_check_steps failed_check_def core_eq)
    next
      case (Inr s3)
      with o obtain s3' where c: "check_orphans v' os ?st s2' = Inr s3'" "core s3 = core s3'"
        by (cases "check_orphans v' os ?st s2'") auto
      with Inr \<open>check_status v fix_ok os now ?st (?s0 v) = Inr s2\<close> b True show ?thesis
        by (simp add: perform_health_check_steps core_eq)
    qed
  qed
qed

lemma healthy_iff_no_issues:
  "healthy (fst (perform_health_check v config_ok read_ok fix_ok os now db))
     = (issues_found (fst (perform_health_check v config_ok read_ok fix_ok os now db)) = [])"
proof (cases config_ok)
  case False
  then show ?thesis by (simp add: perform_health_check_def failed_check_def)
next
  case True
  then show ?thesis
    by (simp add: perform_health_check_steps failed_check_def split: sum.splits prod.splits)
qed

subsubsection \<open>Statements of the ingestor\<close>

lemma cleanup_posts:
  "posts_raw (snd (cleanup_old_posts True now db))
     = filter (\<lambda>p. to_delete (now - days 5) p = False) (posts_raw db)"
proof (cases "filter (to_delete (now - days 5)) (posts_raw db) = []")
  case True
  then have "\<forall>p \<in> set (posts_raw db). \<not> to_delete (now - days 5) p"
    by (simp add: filter_empty_conv)
  then have "filter (\<lambda>p. to_delete (now - days 5) p = False) (posts_raw db) = posts_raw db"
    by (simp add: filter_id_conv)
  with True show ?thesis by (simp add: cleanup_old_posts_def Let_def)
next
  case False
  then show ?thesis by (simp add: cleanup_old_posts_def Let_def)
qed

text \<open>
  What the ingestor and the cleanup do keep: a submission that reaches the author lookup
  and finds a post in one of the ingestor's three statuses is skipped with the
  transaction untouched, and the cleanup keeps every post in one of its four statuses.
\<close>

lemma kept_status_skips_submission:
  assumes "s_author sub = Some a" "length (author_id_of a) \<le> 50"
    "s_created_utc sub \<ge> three_days_ago" "post_exists (working st) (s_id sub) = False"
    "post_of_author (working st) (author_id_of a) = Some existing"
    "p_status existing \<in> {Some ''sent'', Some ''selected'', Some ''answered''}"
  shows "process_submission ocr three_days_ago sub st
           = (Skipped_protected, st\<lparr>skipped_existing_users := skipped_existing_users st + 1\<rparr>)"
  using assms by (auto simp: process_submission_def keeps_old_post_def Let_def)

lemma cleanup_keeps_protected:
  assumes "p \<in> set (posts_raw db)" "reap_protected (p_status p)"
  shows "p \<in> set (posts_raw (snd (cleanup_old_posts conn_ok now db)))"
  using assms by (auto simp: cleanup_old_posts_def to_delete_def Let_def)

lemma insert_post_users:
  "insert_post db new = Inr db' \<Longrightarrow> users db' = users db"
  by (auto simp: insert_post_def split: if_splits)

lemma store_existing_user:
  assumes "store_submission ocr sub a author_id replacing st = (r, st')"
    "r = Inserted \<or> r = Replaced" "user_exists (working st) author_id"
  shows "users (working st') = users (working st)"
  using assms
  by (auto simp: store_submission_def rollback_def split: sum.splits if_splits
      dest: insert_post_users)

subsection \<open>C1: protected statuses under admission and reaping\<close>

text \<open>
  C1. The claim is that an existing item in one of the statuses \<open>selected\<close>,
  \<open>answered\<close>, \<open>sent\<close>, \<open>lead\<close> is never replaced by ingestion nor reaped. The
  ingestor's list of statuses that keep the old post is \<open>sent\<close>, \<open>selected\<close>,
  \<open>answered\<close>; \<open>lead\<close> is missing from it, while \<open>cleanup_old_posts\<close> names all
  four. Here author \<open>u1\<close> has a post in status \<open>lead\<close>, and a new post of \<open>u1\<close> with
  another title arrives: the run reports \<open>Replaced\<close>, the stored post \<open>a1\<close> is gone and
  \<open>b1\<close> is in its place. The cleanup of the same database deletes nothing.
\<close>

theorem lead_post_replaced_by_ingestion:
  "ingest_with_reddit_api True True no_ocr (days 100)
      [ [Yields (candidate ''b1'' (redditor ''u1'' ''t2_u1'') ''Second question'')] ] lead_db
    = (True,
       lead_db\<lparr>posts_raw :=
         [\<lparr>p_id = ''b1'', p_subreddit = ''dating'', p_created_utc = days 99,
           p_title = ''Second question'', p_body = ''body'', p_img_text = None,
           p_link_flair_text = None, p_score = 1, p_num_comments = 0,
           p_url = ''https://reddit.com/r/dating/b1'', p_author_id = Some ''t2_u1'',
           p_status = Some ''open''\<rparr>]\<rparr>,
       [ [Replaced] ])
   \<and> cleanup_old_posts True (days 100) lead_db = (True, lead_db)"
  by (simp add: ingest_defs example_defs cleanup_old_posts_def to_delete_def reap_protected_def)

subsection \<open>C2: a pid that belongs to another program\<close>

text \<open>
  C2, as stated, fails: with \<open>psutil\<close>, pid 4242 alive as an editor and the row
  recording a run owned by 4242, one status read writes \<open>is_running = False\<close> and
  \<open>process_pid = NULL\<close>; the health check does the same and records the fix.
\<close>

theorem foreign_process_forces_failed_example:
  "pipeline_status (fst (snd (get_pipeline_status True True foreign_os 2000 running_db)))
     = Some \<lparr>last_run_timestamp = Some 1000, is_running = Some False,
             last_completion_timestamp = None, process_pid = None\<rparr>
   \<and> pipeline_status (fst (snd (perform_health_check True True True True foreign_os 2000 running_db)))
     = Some \<lparr>last_run_timestamp = Some 1000, is_running = Some False,
             last_completion_timestamp = None, process_pid = None\<rparr>"
  by (simp add: get_pipeline_status_def truthy_bool_def truthy_pid_def update_pipeline_status_def
      is_process_running_def example_defs STATUS_ZOMBIE_def perform_health_check_def
      get_pipeline_status_from_db_def check_status_def check_stale_def
      is_pipeline_process_running_def pipeline_keywords_def fix_stale_pipeline_status_def
      check_long_running_def check_orphans_def find_orphaned_pipeline_processes_def
      hours_def say_def summary_def Let_def)

text \<open>
  C2, amended. When \<open>psutil\<close> is available and shows that the recorded owner exists,
  is not a zombie and has a command line with none of the three pipeline keywords, both
  liveness checks answer "not running", and a status read whose storage calls succeed
  performs the forced-failed transition exactly as for a missing process: the row gets
  \<open>is_running = False\<close> and \<open>process_pid = NULL\<close>, the read reports not running, and the
  auto-fix is logged.
\<close>

theorem foreign_process_forces_failed:
  assumes "psutil_available os" "p \<noteq> 0" "pid_exists (procs os p)"
    "process_open (procs os p) = Returns ()" "process_status (procs os p) = Returns st"
    "st \<noteq> STATUS_ZOMBIE" "process_cmdline (procs os p) = Returns args"
    "has_keyword (join '' '' args) = False"
    "pipeline_status db = Some row" "is_running row = Some True" "process_pid row = Some p"
  shows "is_process_running (Some p) os = False
     \<and> is_pipeline_process_running (Some p) os
           = Inr (False, Not_a_pipeline_process p (join '' '' args))
     \<and> get_pipeline_status True True os now db
           = (status_of_row row False,
              db\<lparr>pipeline_status := Some (row\<lparr>is_running := Some False, process_pid := None\<rparr>)\<rparr>,
              [Auto_fixing_stale_state (Some p), St_warning_auto_fixed (Some p)])"
  using foreign_not_running[OF assms(1-8)] foreign_not_pipeline[OF assms(1-8)]
    stale_read[OF assms(9-11) assms(2)]
  by simp

theorem foreign_process_forces_failed_witness:
  "is_process_running (Some 4242) foreign_os = False
   \<and> is_pipeline_process_running (Some 4242) foreign_os
        = Inr (False, Not_a_pipeline_process 4242 ''/usr/bin/vim notes.txt'')
   \<and> get_pipeline_status True True foreign_os 2000 running_db
        = (status_of_row running_row False,
           running_db\<lparr>pipeline_status :=
              Some (running_row\<lparr>is_running := Some False, process_pid := None\<rparr>)\<rparr>,
           [Auto_fixing_stale_state (Some 4242), St_warning_auto_fixed (Some 4242)])"
  using foreign_process_forces_failed[of foreign_os 4242 "''sleeping''"
      "[''/usr/bin/vim'', ''notes.txt'']" running_db running_row 2000]
  by (simp add: example_defs STATUS_ZOMBIE_def has_keyword_iff)

subsection \<open>C3: repairing a run whose owner is dead\<close>

text \<open>
  C3, as stated, fails in two places. First, a zombie owner is not always repaired:
  without \<open>psutil\<close>, a zombie takes signal 0, and when the \<open>ps\<close> probe then times
  out the check answers "running", so the read reports running and writes nothing.
  Second, where the row is repaired, the repairing read returns the stale pid it has
  just cleared and the next read returns \<open>None\<close>, so the two calls do not return the
  same result.
\<close>

theorem reconcile_not_as_stated_example:
  "process_status (procs zombie_unprobed_os 4242) = Returns STATUS_ZOMBIE
   \<and> is_process_running (Some 4242) zombie_unprobed_os = True
   \<and> get_pipeline_status True True zombie_unprobed_os 2000 running_db
       = (status_of_row running_row True, running_db, [])
   \<and> sd_process_pid (fst (get_pipeline_status True True gone_os 2000 running_db)) = Some 4242
   \<and> sd_process_pid (fst (get_pipeline_status True True gone_os 2000
         (fst (snd (get_pipeline_status True True gone_os 2000 running_db))))) = None
   \<and> fst (get_pipeline_status True True gone_os 2000 running_db)
       \<noteq> fst (get_pipeline_status True True gone_os 2000
                (fst (snd (get_pipeline_status True True gone_os 2000 running_db))))"
  by (simp add: get_pipeline_status_def truthy_bool_def truthy_pid_def update_pipeline_status_def
      is_process_running_def example_defs status_of_row_def STATUS_ZOMBIE_def)

text \<open>
  C3, amended. Let the row say running, owned by a non-zero pid, and let the probes of
  the liveness check show that the process does not exist (\<open>probe_shows_not_found\<close>)
  or show it as a zombie (\<open>probe_shows_zombie\<close>; without \<open>psutil\<close> this needs the
  \<open>ps\<close> probe to complete with status 0 and print the zombie state). A status read
  whose storage calls succeed leaves the row with \<open>is_running = False\<close> and
  \<open>process_pid = NULL\<close> and reports not running. A second read of the resulting
  database (at any time, with any view of the processes) changes nothing and reports the
  same \<open>is_running\<close>, \<open>last_run\<close> and \<open>last_completion\<close>.
\<close>

theorem reconcile_dead_owner_idempotent:
  assumes "pipeline_status db = Some row" "is_running row = Some True"
    "process_pid row = Some p" "p \<noteq> 0" "probe_shows_not_found os p \<or> probe_shows_zombie os p"
    "get_pipeline_status True True os now db = (st1, db1, lg1)"
    "get_pipeline_status True fix_ok os' now' db1 = (st2, db2, lg2)"
  shows "pipeline_status db1 = Some (row\<lparr>is_running := Some False, process_pid := None\<rparr>)
     \<and> db2 = db1
     \<and> sd_is_running st1 = False \<and> sd_is_running st2 = False
     \<and> sd_last_run st2 = sd_last_run st1
     \<and> sd_last_completion st2 = sd_last_completion st1"
proof -
  have dead: "is_process_running (Some p) os = False"
    using assms(5) not_found_not_running zombie_not_running by blast
  have one: "st1 = status_of_row row False"
    "db1 = db\<lparr>pipeline_status := Some (row\<lparr>is_running := Some False, process_pid := None\<rparr>)\<rparr>"
    using stale_read[OF assms(1-4) dead, of now] assms(6) by simp_all
  have two: "get_pipeline_status True fix_ok os' now' db1
      = (status_of_row (row\<lparr>is_running := Some False, process_pid := None\<rparr>) False, db1, [])"
    by (rule read_not_running) (simp_all add: one)
  with assms(7) one show ?thesis by (auto simp: status_of_row_def)
qed

theorem reconcile_dead_owner_idempotent_witness:
  "pipeline_status (fst (snd (get_pipeline_status True True gone_os 2000 running_db)))
      = Some (running_row\<lparr>is_running := Some False, process_pid := None\<rparr>)
   \<and> fst (snd (get_pipeline_status True True gone_os 3000
         (fst (snd (get_pipeline_status True True gone_os 2000 running_db)))))
      = fst (snd (get_pipeline_status True True gone_os 2000 running_db))
   \<and> pipeline_status (fst (snd (get_pipeline_status True True zombie_os 2000 running_db)))
      = Some (running_row\<lparr>is_running := Some False, process_pid := None\<rparr>)
   \<and> fst (snd (get_pipeline_status True True zombie_os 3000
         (fst (snd (get_pipeline_status True True zombie_os 2000 running_db)))))
      = fst (snd (get_pipeline_status True True zombie_os 2000 running_db))"
  using reconcile_dead_owner_idempotent[of running_db running_row 4242 gone_os 2000
      "fst (get_pipeline_status True True gone_os 2000 running_db)"
      "fst (snd (get_pipeline_status True True gone_os 2000 running_db))"
      "snd (snd (get_pipeline_status True True gone_os 2000 running_db))"
      True gone_os 3000
      "fst (get_pipeline_status True True gone_os 3000
              (fst (snd (get_pipeline_status True True gone_os 2000 running_db))))"
      "fst (snd (get_pipeline_status True True gone_os 3000
              (fst (snd (get_pipeline_status True True gone_os 2000 running_db)))))"
      "snd (snd (get_pipeline_status True True gone_os 3000
              (fst (snd (get_pipeline_status True True gone_os 2000 running_db)))))"]
    reconcile_dead_owner_idempotent[of running_db running_row 4242 zombie_os 2000
      "fst (get_pipeline_status True True zombie_os 2000 running_db)"
      "fst (snd (get_pipeline_status True True zombie_os 2000 running_db))"
      "snd (snd (get_pipeline_status True True zombie_os 2000 running_db))"
      True zombie_os 3000
      "fst (get_pipeline_status True True zombie_os 3000
              (fst (snd (get_pipeline_status True True zombie_os 2000 running_db))))"
      "fst (snd (get_pipeline_status True True zombie_os 3000
              (fst (snd (get_pipeline_status True True zombie_os 2000 running_db)))))"
      "snd (snd (get_pipeline_status True True zombie_os 3000
              (fst (snd (get_pipeline_status True True zombie_os 2000 running_db)))))"]
  by (simp add: example_defs probe_shows_not_found_def probe_shows_zombie_def strip_def is_space_def)

subsection \<open>C4: a failed admission and the admissions before it\<close>

text \<open>
  C4. The claim is that a failure while admitting one candidate undoes that candidate
  only. The loop commits once per subreddit, after the loop, and its error handlers call
  \<open>conn.rollback()\<close>, which discards everything written since that commit. Here the
  first candidate (author \<open>alice\<close>) is admitted, and the second (username \<open>bob\<close>, stored
  under another id) fails on \<open>users_username_key\<close>: the run reports
  \<open>Inserted\<close> then \<open>User_insert_failed\<close>, and storage afterwards is the database it
  started from, without the first candidate. Fed alone, the first candidate is stored.
\<close>

theorem rollback_discards_earlier_admission:
  "ingest_with_reddit_api True True no_ocr (days 100)
     [ [Yields (candidate ''c1'' (redditor ''alice'' ''t2_alice'') ''Q1''),
       Yields (candidate ''c2'' (redditor ''bob'' ''t2_new'') ''Q2'')] ] bob_db
    = (True, bob_db, [ [Inserted, User_insert_failed] ])
   \<and> map p_id (posts_raw (fst (snd (ingest_with_reddit_api True True no_ocr (days 100)
        [ [Yields (candidate ''c1'' (redditor ''alice'' ''t2_alice'') ''Q1'')] ] bob_db))))
      = [''c1'']"
  by (simp add: ingest_defs example_defs)

subsection \<open>C5: the exit status of the health check\<close>

text \<open>
  C5, as stated, fails: the recorded owner is gone, the check finds that one issue and
  repairs it (one fix applied, the row reset), no orphan is found, and the exit status
  is 1.
\<close>

theorem repaired_issue_exits_nonzero_example:
  "fst (main_exit False False True True True gone_os 2000 running_db) = 1
   \<and> issues_found (fst (perform_health_check True True True True gone_os 2000 running_db))
       = [Marked_running_but (Does_not_exist 4242)]
   \<and> fixes_applied (fst (perform_health_check True True True True gone_os 2000 running_db))
       = [Fixed_stale_status (Some 4242)]"
  by (simp add: main_exit_def example_defs perform_health_check_def
      get_pipeline_status_from_db_def check_status_def check_stale_def truthy_bool_def
      truthy_pid_def is_pipeline_process_running_def fix_stale_pipeline_status_def
      check_long_running_def check_orphans_def find_orphaned_pipeline_processes_def
      hours_def say_def summary_def Let_def)

text \<open>
  C5, amended. The exit status is 0 exactly when the check found no issue, and 1
  otherwise, repaired or not; an exception inside the check counts as an issue. The
  \<open>--quiet\<close> flag changes neither the exit status nor what the check writes to the
  database (and \<open>--fix\<close> is not consulted).
\<close>

theorem exit_status_is_zero_iff_no_issue:
  "fst (main_exit quiet fix_flag config_ok read_ok fix_ok os now db)
     = (if issues_found (fst (perform_health_check verbose config_ok read_ok fix_ok os now db)) = []
        then 0 else 1)
   \<and> fst (main_exit True fix_flag config_ok read_ok fix_ok os now db)
     = fst (main_exit False fix_flag' config_ok read_ok fix_ok os now db)
   \<and> fst (snd (main_exit True fix_flag config_ok read_ok fix_ok os now db))
     = fst (snd (main_exit False fix_flag' config_ok read_ok fix_ok os now db))"
proof -
  have a: "fst (main_exit q f config_ok read_ok fix_ok os now db)
     = (if issues_found (fst (perform_health_check (\<not> q) config_ok read_ok fix_ok os now db)) = []
        then 0 else 1)" for q f
    using healthy_iff_no_issues[of "\<not> q" config_ok read_ok fix_ok os now db]
    by (simp add: main_exit_def case_prod_beta)
  have b: "fst (snd (main_exit q f config_ok read_ok fix_ok os now db))
     = fst (snd (perform_health_check (\<not> q) config_ok read_ok fix_ok os now db))" for q f
    by (simp add: main_exit_def case_prod_beta)
  show ?thesis
    using a[of quiet fix_flag] a[of True fix_flag] a[of False fix_flag']
      b[of True fix_flag] b[of False fix_flag']
      health_verbose_independent[of "\<not> quiet" config_ok read_ok fix_ok os now db verbose]
      health_verbose_independent[of False config_ok read_ok fix_ok os now db True]
    by simp
qed

subsection \<open>C6: when the command line cannot be inspected\<close>

text \<open>
  C6, as stated, fails for a denied inspection: with \<open>psutil\<close>, the process exists and
  runs, reading its command line raises \<open>AccessDenied\<close>, and both checks answer "not
  running".
\<close>

theorem access_denied_reports_dead_example:
  "is_process_running (Some 4242) denied_os = False
   \<and> is_pipeline_process_running (Some 4242) denied_os = Inr (False, PID_error 4242)"
  by (simp add: is_process_running_def is_pipeline_process_running_def example_defs
      STATUS_ZOMBIE_def)

text \<open>
  C6, amended. Without \<open>psutil\<close>, for a non-zero pid that takes signal 0: the
  dashboard's check answers "running" when the \<open>ps\<close> probe times out, when it fails as
  a subprocess, and when it completes with status 0 and a state that shows no zombie;
  the health check's answers "running" when its \<open>ps\<close> probe times out.
\<close>

theorem fallback_probe_failure_reports_alive:
  assumes "psutil_available os = False" "p \<noteq> 0" "kill0_ok (procs os p)"
  shows "(ps_stat (procs os p) = TimeoutExpired \<or> ps_stat (procs os p) = SubprocessError
            \<or> (\<exists>out. ps_stat (procs os p) = Completed 0 out
                  \<and> py_in ''Z'' (strip out) = False \<and> py_in ''<defunct>'' (strip out) = False)
          \<longrightarrow> is_process_running (Some p) os = True)
       \<and> (ps_stat_comm (procs os p) = TimeoutExpired
          \<longrightarrow> is_pipeline_process_running (Some p) os = Inr (True, Timeout_checking p))"
  using assms
  by (auto simp: is_process_running_def is_pipeline_process_running_def Let_def)

theorem fallback_probe_failure_reports_alive_witness:
  "is_process_running (Some 4242) timeout_os = True
   \<and> is_pipeline_process_running (Some 4242) timeout_os = Inr (True, Timeout_checking 4242)"
  using fallback_probe_failure_reports_alive[of timeout_os 4242]
  by (simp add: example_defs)

subsection \<open>C7: reaping after five days\<close>

text \<open>
  C7. \<open>cleanup_old_posts\<close> (its window is fixed at five days), when its storage calls
  succeed: a stored post created before \<open>now - 5 days\<close> is deleted if its status is
  \<open>open\<close>, deleted if its status is null, and kept if its status is \<open>selected\<close>.
\<close>

theorem reap_after_five_days:
  assumes "p \<in> set (posts_raw db)" "p_created_utc p < now - days 5"
  shows "(p_status p = Some ''open'' \<longrightarrow> p \<notin> set (posts_raw (snd (cleanup_old_posts True now db))))
       \<and> (p_status p = None \<longrightarrow> p \<notin> set (posts_raw (snd (cleanup_old_posts True now db))))
       \<and> (p_status p = Some ''selected''
            \<longrightarrow> p \<in> set (posts_raw (snd (cleanup_old_posts True now db))))"
  using assms
  by (auto simp: cleanup_posts to_delete_def reap_protected_def)

text \<open>Three posts six days old, in status \<open>open\<close>, \<open>selected\<close> and null: only the second stays.\<close>

theorem reap_after_five_days_witness:
  "posts_raw (snd (cleanup_old_posts True (days 100) reap_db))
     = [old_post ''a2'' ''t2_u2'' (Some ''selected'')]"
  using reap_after_five_days[of "old_post ''a1'' ''t2_u1'' (Some ''open'')" reap_db "days 100"]
    reap_after_five_days[of "old_post ''a2'' ''t2_u2'' (Some ''selected'')" reap_db "days 100"]
    reap_after_five_days[of "old_post ''a3'' ''t2_u3'' None" reap_db "days 100"]
  by (simp add: cleanup_posts reap_db_def old_post_def days_def to_delete_def reap_protected_def)

subsection \<open>C8: the author record on a repeat sighting\<close>

text \<open>
  C8, as stated, fails: author \<open>u1\<close> is stored without comment karma, a candidate of
  \<open>u1\<close> arrives carrying comment karma 10 and is inserted, and the stored author row is
  what it was; the merge of the upsert, had it run, would have stored the 10.
\<close>

theorem known_author_not_updated_example:
  "fst (process_submission no_ocr (days 97)
          (candidate ''b1'' (redditor ''u1'' ''t2_u1'') ''Second question'')
          (fresh_state known_author_db)) = Inserted
   \<and> users (working (snd (process_submission no_ocr (days 97)
          (candidate ''b1'' (redditor ''u1'' ''t2_u1'') ''Second question'')
          (fresh_state known_author_db)))) = [stored_user ''t2_u1'' ''u1'']
   \<and> u_comment_karma (stored_user ''t2_u1'' ''u1'') = None
   \<and> u_comment_karma (merge_user (stored_user ''t2_u1'' ''u1'')
         (user_data (redditor ''u1'' ''t2_u1'') ''t2_u1'')) = Some 10"
  by (simp add: ingest_defs example_defs merge_user_def coalesce_def)

text \<open>
  C8, amended. When a submission is inserted or replaces a post and a row with its
  author's id already exists in \<open>users\<close>, no statement on \<open>users\<close> is executed: the
  table is left exactly as it was, so every stored field survives and no incoming value
  is written. (The upsert with its merge runs only when no row with the id exists.)
\<close>

theorem known_author_record_unchanged:
  assumes "process_submission ocr three_days_ago sub st = (r, st')"
    "r = Inserted \<or> r = Replaced" "s_author sub = Some a"
    "user_exists (working st) (author_id_of a)"
  shows "users (working st') = users (working st)"
proof (cases "post_of_author (working st) (author_id_of a)")
  case None
  with assms(1,3) have "store_submission ocr sub a (author_id_of a) False st = (r, st')"
    using assms(2) by (auto simp: process_submission_def Let_def split: if_splits)
  from store_existing_user[OF this assms(2,4)] show ?thesis .
next
  case (Some existing)
  let ?st = "st\<lparr>working := delete_post (working st) (p_id existing),
                 replaced_posts := replaced_posts st + 1\<rparr>"
  from Some assms(1,3) have "store_submission ocr sub a (author_id_of a) True ?st = (r, st')"
    using assms(2) by (auto simp: process_submission_def Let_def split: if_splits)
  from store_existing_user[OF this assms(2)] assms(4) show ?thesis
    by (simp add: delete_post_def user_exists_def)
qed

theorem known_author_record_unchanged_witness:
  "users (working (snd (process_submission no_ocr (days 97)
      (candidate ''b2'' (redditor ''u1'' ''t2_u1'') ''Another question'')
      (fresh_state known_author_db)))) = users known_author_db"
  using known_author_record_unchanged[of no_ocr "days 97"
      "candidate ''b2'' (redditor ''u1'' ''t2_u1'') ''Another question''"
      "fresh_state known_author_db"
      "fst (process_submission no_ocr (days 97)
         (candidate ''b2'' (redditor ''u1'' ''t2_u1'') ''Another question'')
         (fresh_state known_author_db))"
      "snd (process_submission no_ocr (days 97)
         (candidate ''b2'' (redditor ''u1'' ''t2_u1'') ''Another question'')
         (fresh_state known_author_db))"
      "redditor ''u1'' ''t2_u1''"]
  by (simp add: ingest_defs example_defs)

subsection \<open>C9: a failed storage read is reported as not running\<close>

text \<open>
  C9. When the storage read of a status read fails, \<open>get_pipeline_status\<close> returns
  \<open>is_running = False\<close> and leaves the database alone, whatever the database holds and
  whatever the operating system shows of the job; \<open>check_pipeline_completion\<close> returns
  \<open>True\<close> both when its own connection fails and when the status read inside it fails;
  and with such a status the dashboard's launch button is not disabled.
\<close>

theorem storage_failure_reads_not_running:
  "sd_is_running (fst (get_pipeline_status False fix_ok os now db)) = False
   \<and> fst (snd (get_pipeline_status False fix_ok os now db)) = db
   \<and> fst (check_pipeline_completion False read_ok fix_ok query_ok complete_ok os now db) = True
   \<and> fst (check_pipeline_completion True False fix_ok query_ok complete_ok os now db) = True
   \<and> button_disabled (fst (get_pipeline_status False fix_ok os now db)) pipeline_complete = False"
  by (simp add: get_pipeline_status_def check_pipeline_completion_def default_status_def
      button_disabled_def)

subsection \<open>C10: running without a recorded owner\<close>

text \<open>
  C10. A row with \<open>is_running = True\<close> and \<open>process_pid = NULL\<close> is a fixed point: a
  status read leaves the database as it is, whatever its storage calls and the process
  table do, and a read that succeeds reports running; a health check leaves the database
  as it is and applies no fix, whatever its flags, its storage calls and the process
  table do.
\<close>

theorem running_without_pid_is_fixed_point:
  assumes "pipeline_status db = Some row" "is_running row = Some True" "process_pid row = None"
  shows "fst (snd (get_pipeline_status read_ok fix_ok os now db)) = db
     \<and> sd_is_running (fst (get_pipeline_status True fix_ok os now db)) = True
     \<and> fst (snd (perform_health_check verbose config_ok read_ok' fix_ok' os now db)) = db
     \<and> fixes_applied (fst (perform_health_check verbose config_ok read_ok' fix_ok' os now db)) = []"
  using read_without_pid[OF assms] health_check_without_pid[OF assms(1) assms(3)]
  by (simp add: status_of_row_def)

theorem running_without_pid_is_fixed_point_witness:
  "fst (snd (get_pipeline_status True True gone_os 2000 pidless_db)) = pidless_db
   \<and> sd_is_running (fst (get_pipeline_status True True gone_os 2000 pidless_db)) = True
   \<and> fst (snd (perform_health_check True True True True gone_os 2000 pidless_db)) = pidless_db"
  using running_without_pid_is_fixed_point[of pidless_db "running_row\<lparr>process_pid := None\<rparr>"
      True True gone_os 2000 True True True True]
  by (simp add: pidless_db_def running_row_def)

end
